theory Spec2Isabelle
  imports Main "HOL-Library.Word"
begin

section \<open>Package conversation: the session store\<close>

text \<open>
  Telegram user and chat identifiers are Go \<open>int64\<close> values: 64-bit words, read as
  two's complement by \<open>sint\<close>.
\<close>

type_synonym int64 = "64 word"

text \<open>
  \<open>type UserSession struct { UserID string; ConversationID string }\<close>.
  A Go composite literal that leaves a field out gives that field its zero value, the
  empty string.
\<close>

record UserSession =
  UserID :: string
  ConversationID :: string

text \<open>
  \<open>type Manager struct { sessions map[int64]*UserSession; mu sync.RWMutex }\<close>.
  The map holds pointers, and a pointer may be nil: an entry is \<open>Some None\<close> when the
  key is present with a nil pointer, \<open>Some (Some s)\<close> when it points to the session
  \<open>s\<close>, and \<open>None\<close> when the key is absent. No function of the repository writes
  through a session pointer after storing it (every write replaces a whole entry), so
  a pointer is modelled by the value it points to. The lock \<open>mu\<close> is held for the whole
  of each operation, so each operation is one atomic step on the map; the model is of
  a manager built by \<open>NewManager\<close>, whose map is allocated.
\<close>

record Manager =
  sessions :: "int64 \<rightharpoonup> UserSession option"

definition NewManager :: Manager where
  "NewManager = \<lparr>sessions = Map.empty\<rparr>"

definition StartConversation :: "Manager \<Rightarrow> int64 \<Rightarrow> string \<Rightarrow> Manager" where
  "StartConversation m telegramUserID conversationID =
     m\<lparr>sessions := (sessions m)(telegramUserID \<mapsto>
          Some \<lparr>UserID = [], ConversationID = conversationID\<rparr>)\<rparr>"

text \<open>
  \<open>return m.sessions[telegramUserID]\<close>: indexing a Go map at an absent key gives the
  zero value of the element type, the nil pointer.
\<close>

definition GetSession :: "Manager \<Rightarrow> int64 \<Rightarrow> UserSession option" where
  "GetSession m telegramUserID =
     (case sessions m telegramUserID of None \<Rightarrow> None | Some p \<Rightarrow> p)"

text \<open>\<open>delete(m.sessions, telegramUserID)\<close>: deleting an absent key does nothing.\<close>

definition ClearSession :: "Manager \<Rightarrow> int64 \<Rightarrow> Manager" where
  "ClearSession m telegramUserID =
     m\<lparr>sessions := (sessions m)(telegramUserID := None)\<rparr>"

definition UpdateSession :: "Manager \<Rightarrow> int64 \<Rightarrow> UserSession option \<Rightarrow> Manager" where
  "UpdateSession m telegramUserID session =
     m\<lparr>sessions := (sessions m)(telegramUserID \<mapsto> session)\<rparr>"

section \<open>Go library functions the program calls\<close>

text \<open>
  \<open>strconv.FormatInt(i, 10)\<close> and the verb \<open>%d\<close> of \<open>fmt\<close> write an integer in
  decimal, with a leading minus sign when it is negative.
\<close>

definition digit :: "nat \<Rightarrow> char" where
  "digit d = ''0123456789'' ! d"

function decimal :: "nat \<Rightarrow> string" where
  "decimal n = (if n < 10 then [digit n] else decimal (n div 10) @ [digit (n mod 10)])"
  by pat_completeness auto
termination
  by (relation "measure id") auto

declare decimal.simps [simp del]

definition itoa :: "int \<Rightarrow> string" where
  "itoa i = (if i < 0 then CHR ''-'' # decimal (nat (- i)) else decimal (nat i))"

text \<open>The base-10 case of \<open>strconv.FormatInt\<close>, the only one the program calls.\<close>

definition FormatInt :: "int64 \<Rightarrow> string" where
  "FormatInt i = itoa (sint i)"

text \<open>
  \<open>strings.Fields\<close> splits a string around each run of white space, as
  \<open>unicode.IsSpace\<close> defines it, and returns the non-empty pieces. A Go string is a
  sequence of bytes holding UTF-8. \<open>space_width s\<close> is the number of bytes of the
  white-space character that starts \<open>s\<close>, or 0 when \<open>s\<close> does not start with one:
  the six ASCII characters tab, line feed, vertical tab, form feed, carriage return
  and space; U+0085 and U+00A0 (two bytes each); U+1680, U+2000 to U+200A, U+2028,
  U+2029, U+202F, U+205F and U+3000 (three bytes each).
\<close>

fun space_width :: "string \<Rightarrow> nat" where
  "space_width [] = 0"
| "space_width (c # cs) =
     (let b = (of_char c :: nat) in
      if b = 32 \<or> (9 \<le> b \<and> b \<le> 13) then 1
      else (case cs of
              [] \<Rightarrow> 0
            | d # ds \<Rightarrow>
                (let b1 = (of_char d :: nat) in
                 if b = 194 \<and> (b1 = 133 \<or> b1 = 160) then 2
                 else (case ds of
                         [] \<Rightarrow> 0
                       | e # _ \<Rightarrow>
                           (let b2 = (of_char e :: nat) in
                            if b = 225 \<and> b1 = 154 \<and> b2 = 128 then 3
                            else if b = 226 \<and> b1 = 128 \<and>
                                    (128 \<le> b2 \<and> b2 \<le> 138 \<or> b2 = 168 \<or> b2 = 169 \<or> b2 = 175)
                              then 3
                            else if b = 226 \<and> b1 = 129 \<and> b2 = 159 then 3
                            else if b = 227 \<and> b1 = 128 \<and> b2 = 128 then 3
                            else 0)))))"

definition flush :: "string \<Rightarrow> string list" where
  "flush cur = (if cur = [] then [] else [cur])"

text \<open>
  \<open>Fields_from skip s cur\<close> scans \<open>s\<close> with \<open>skip\<close> bytes of a white-space character
  still to pass over and \<open>cur\<close> the field read so far.
\<close>

fun Fields_from :: "nat \<Rightarrow> string \<Rightarrow> string \<Rightarrow> string list" where
  "Fields_from skip [] cur = flush cur"
| "Fields_from (Suc skip) (c # cs) cur = Fields_from skip cs cur"
| "Fields_from 0 (c # cs) cur =
     (let w = space_width (c # cs) in
      if w = 0 then Fields_from 0 cs (cur @ [c])
      else flush cur @ Fields_from (w - 1) cs [])"

definition Fields :: "string \<Rightarrow> string list" where
  "Fields s = Fields_from 0 s []"

text \<open>
  \<open>strconv.Atoi\<close> on a platform whose \<open>int\<close> has 64 bits: an optional sign, then
  one or more decimal digits and nothing else; a value outside the range of \<open>int\<close>
  is an error.
\<close>

datatype NumError = ErrSyntax | ErrRange

fun parse_digits :: "nat \<Rightarrow> string \<Rightarrow> nat option" where
  "parse_digits n [] = Some n"
| "parse_digits n (c # cs) =
     (let b = (of_char c :: nat) in
      if 48 \<le> b \<and> b \<le> 57 then parse_digits (n * 10 + (b - 48)) cs else None)"

definition Atoi :: "string \<Rightarrow> NumError + int" where
  "Atoi s =
     (case s of
        [] \<Rightarrow> Inl ErrSyntax
      | c # cs \<Rightarrow>
          (let neg = (c = CHR ''-'');
               ds = (if c = CHR ''-'' \<or> c = CHR ''+'' then cs else s)
           in if ds = [] then Inl ErrSyntax
              else (case parse_digits 0 ds of
                      None \<Rightarrow> Inl ErrSyntax
                    | Some n \<Rightarrow>
                        if neg then (if 2 ^ 63 < n then Inl ErrRange else Inr (- int n))
                        else (if 2 ^ 63 \<le> n then Inl ErrRange else Inr (int n)))))"

text \<open>
  \<open>os.Getenv\<close>: the value of an environment variable, the empty string when it is
  not set.
\<close>

type_synonym environ = "string \<rightharpoonup> string"

definition Getenv :: "environ \<Rightarrow> string \<Rightarrow> string" where
  "Getenv env key = (case env key of None \<Rightarrow> [] | Some v \<Rightarrow> v)"

text \<open>
  What a Go function call ends in: a run-time panic, \<open>log.Fatal\<close> (the process
  exits), or a normal return.
\<close>

datatype 'a outcome = Panic string | Fatal string | Return 'a

section \<open>Package config\<close>

record Config =
  TelegramToken :: string
  APIServerURL :: string
  DefaultConversationLimit :: int

definition getEnvOrDefault :: "environ \<Rightarrow> string \<Rightarrow> string \<Rightarrow> string" where
  "getEnvOrDefault env key defaultValue =
     (let v = Getenv env key in if v \<noteq> [] then v else defaultValue)"

definition getEnvIntOrDefault :: "environ \<Rightarrow> string \<Rightarrow> int \<Rightarrow> int" where
  "getEnvIntOrDefault env key defaultValue =
     (let strValue = Getenv env key in
      if strValue = [] then defaultValue
      else (case Atoi strValue of Inl err \<Rightarrow> defaultValue | Inr v \<Rightarrow> v))"

definition New :: "environ \<Rightarrow> Config" where
  "New env =
     \<lparr>TelegramToken = getEnvOrDefault env ''TELEGRAM_BOT_TOKEN'' [],
      APIServerURL = getEnvOrDefault env ''API_SERVER_URL'' ''http://localhost:8080'',
      DefaultConversationLimit = getEnvIntOrDefault env ''DEFAULT_CONVERSATION_LIMIT'' 10\<rparr>"

section \<open>Package api: the backend client\<close>

text \<open>
  \<open>ChatRequest\<close> has the fields \<open>Input\<close>, \<open>ConversationID\<close>, \<open>UserID\<close> and \<open>Title\<close>,
  \<open>ChatResponse\<close> the fields \<open>Output\<close> and \<open>ConversationID\<close>. Field names are
  constants of the theory, so those that \<open>UserSession\<close> also has carry the prefix
  \<open>req_\<close> or \<open>resp_\<close> here.
\<close>

record ChatRequest =
  Input :: string
  req_ConversationID :: string
  req_UserID :: string
  Title :: string

record ChatResponse =
  Output :: string
  resp_ConversationID :: string

text \<open>
  \<open>Message\<close> and \<open>Conversation\<close> of package api. \<open>'tm\<close> stands for \<open>time.Time\<close>, whose
  values the program only carries from the decoder to \<open>Format\<close>.
\<close>

record 'tm ChatMessage =
  Role :: string
  Content :: string
  Timestamp :: 'tm

record 'tm Conversation =
  conv_ID :: string
  conv_Title :: string
  CreatedAt :: 'tm
  Messages :: "'tm ChatMessage list"

text \<open>
  \<open>http.Client\<close> with its \<open>Timeout\<close>, a \<open>time.Duration\<close> in nanoseconds, and the
  client of package api.
\<close>

record http_Client =
  Timeout :: int

record Client =
  baseURL :: string
  httpClient :: http_Client

definition Second :: int where
  "Second = 1000000000"

definition StatusOK :: int where
  "StatusOK = 200"

definition NewClient :: "string \<Rightarrow> Client" where
  "NewClient url = \<lparr>baseURL = url, httpClient = \<lparr>Timeout = Second * 30\<rparr>\<rparr>"

text \<open>
  A request as \<open>net/http\<close> sends it: \<open>Post(url, contentType, body)\<close> or \<open>Get(url)\<close>;
  and the part of \<open>http.Response\<close> the program reads.
\<close>

datatype http_request = HttpPost string string string | HttpGet string

record http_Response =
  StatusCode :: int
  Body :: string

text \<open>
  The errors the client returns, one constructor for each \<open>fmt.Errorf\<close> of the
  source; \<open>Error\<close> is the message.
\<close>

datatype api_error =
    MarshalingRequest string
  | SendingRequest string
  | GettingConversations string
  | GettingTools string
  | UnexpectedStatusCode int
  | DecodingResponse string

fun Error :: "api_error \<Rightarrow> string" where
  "Error (MarshalingRequest e) = ''error marshaling request: '' @ e"
| "Error (SendingRequest e) = ''error sending request: '' @ e"
| "Error (GettingConversations e) = ''error getting conversations: '' @ e"
| "Error (GettingTools e) = ''error getting tools: '' @ e"
| "Error (UnexpectedStatusCode c) = ''unexpected status code: '' @ itoa c"
| "Error (DecodingResponse e) = ''error decoding response: '' @ e"

text \<open>
  What lies outside the repository, as parameters of the model. \<open>roundTrip hc n r\<close>
  is what the network and the backend give to the exchange number \<open>n\<close> (counted
  from 0) of request \<open>r\<close> made by the HTTP client \<open>hc\<close>: an error of \<open>net/http\<close>
  (no connection, or the client's timeout passed) or a response. \<open>encode\<close> is the
  JSON text \<open>encoding/json\<close> writes for a \<open>ChatRequest\<close>; the \<open>decode_\<close> functions
  are what its decoder makes of a body for each of the three targets the
  program decodes into (an error, or the decoded value; a list for the slice, \<open>None\<close>
  for a nil map). \<open>time_Format\<close> is \<open>time.Time.Format\<close>, \<open>Sprint_tools\<close> the verb
  \<open>%+v\<close> on a map, and \<open>NewBotAPI\<close> the error, if any, of connecting to Telegram with a
  token.
\<close>

record ('tm, 'tools) library =
  roundTrip :: "http_Client \<Rightarrow> nat \<Rightarrow> http_request \<Rightarrow> string + http_Response"
  encode :: "ChatRequest \<Rightarrow> string"
  decode_ChatResponse :: "string \<Rightarrow> string + ChatResponse"
  decode_Conversations :: "string \<Rightarrow> string + 'tm Conversation list"
  decode_Tools :: "string \<Rightarrow> string + 'tools option"
  time_Format :: "'tm \<Rightarrow> string \<Rightarrow> string"
  Sprint_tools :: "'tools option \<Rightarrow> string"
  NewBotAPI :: "string \<Rightarrow> string option"

text \<open>
  \<open>json.Marshal\<close> on a \<open>ChatRequest\<close>: a struct of four strings, which
  \<open>encoding/json\<close> always encodes, so the error is never returned.
\<close>

definition json_Marshal :: "('tm, 'tools) library \<Rightarrow> ChatRequest \<Rightarrow> string + string" where
  "json_Marshal L req = Inr (encode L req)"

text \<open>
  The state of the network is the list of the requests sent so far, the oldest
  first. Every call of \<open>Post\<close> or \<open>Get\<close> adds its request to it.
\<close>

type_synonym wire = "http_request list"

definition http_Post ::
  "('tm, 'tools) library \<Rightarrow> http_Client \<Rightarrow> wire \<Rightarrow> string \<Rightarrow> string \<Rightarrow> string
     \<Rightarrow> (string + http_Response) \<times> wire" where
  "http_Post L hc w url contentType body =
     (roundTrip L hc (length w) (HttpPost url contentType body),
      w @ [HttpPost url contentType body])"

definition http_Get ::
  "('tm, 'tools) library \<Rightarrow> http_Client \<Rightarrow> wire \<Rightarrow> string
     \<Rightarrow> (string + http_Response) \<times> wire" where
  "http_Get L hc w url = (roundTrip L hc (length w) (HttpGet url), w @ [HttpGet url])"

text \<open>
  \<open>SendMessage\<close> returns the pair \<open>(*ChatResponse, error)\<close> of the source, each side
  \<open>None\<close> when it is nil, and the state of the network.
\<close>

definition SendMessage ::
  "('tm, 'tools) library \<Rightarrow> Client \<Rightarrow> wire \<Rightarrow> ChatRequest
     \<Rightarrow> (ChatResponse option \<times> api_error option) \<times> wire" where
  "SendMessage L c w req =
     (case json_Marshal L req of
        Inl err \<Rightarrow> ((None, Some (MarshalingRequest err)), w)
      | Inr jsonData \<Rightarrow>
          (case http_Post L (httpClient c) w (baseURL c @ ''/chat'') ''application/json'' jsonData of
             (Inl err, w') \<Rightarrow> ((None, Some (SendingRequest err)), w')
           | (Inr resp, w') \<Rightarrow>
               if StatusCode resp \<noteq> StatusOK
               then ((None, Some (UnexpectedStatusCode (StatusCode resp))), w')
               else (case decode_ChatResponse L (Body resp) of
                       Inl err \<Rightarrow> ((None, Some (DecodingResponse err)), w')
                     | Inr chatResp \<Rightarrow> ((Some chatResp, None), w'))))"

definition GetConversations ::
  "('tm, 'tools) library \<Rightarrow> Client \<Rightarrow> wire
     \<Rightarrow> ('tm Conversation list \<times> api_error option) \<times> wire" where
  "GetConversations L c w =
     (case http_Get L (httpClient c) w (baseURL c @ ''/conversations'') of
        (Inl err, w') \<Rightarrow> (([], Some (GettingConversations err)), w')
      | (Inr resp, w') \<Rightarrow>
          if StatusCode resp \<noteq> StatusOK
          then (([], Some (UnexpectedStatusCode (StatusCode resp))), w')
          else (case decode_Conversations L (Body resp) of
                  Inl err \<Rightarrow> (([], Some (DecodingResponse err)), w')
                | Inr result \<Rightarrow> ((result, None), w')))"

definition GetTools ::
  "('tm, 'tools) library \<Rightarrow> Client \<Rightarrow> wire \<Rightarrow> ('tools option \<times> api_error option) \<times> wire" where
  "GetTools L c w =
     (case http_Get L (httpClient c) w (baseURL c @ ''/tools'') of
        (Inl err, w') \<Rightarrow> ((None, Some (GettingTools err)), w')
      | (Inr resp, w') \<Rightarrow>
          if StatusCode resp \<noteq> StatusOK
          then ((None, Some (UnexpectedStatusCode (StatusCode resp))), w')
          else (case decode_Tools L (Body resp) of
                  Inl err \<Rightarrow> ((None, Some (DecodingResponse err)), w')
                | Inr result \<Rightarrow> ((result, None), w')))"

section \<open>Package handlers\<close>

text \<open>
  The inbound event, \<open>tgbotapi.Message\<close>, as the handlers read it: the sender
  \<open>msg.From.ID\<close>, the chat \<open>msg.Chat.ID\<close>, the text, and what the library's methods
  \<open>IsCommand()\<close>, \<open>Command()\<close> and \<open>CommandArguments()\<close> return on it. The events
  modelled carry a sender and a chat. \<open>MessageConfig\<close> is the reply, as
  \<open>tgbotapi.NewMessage\<close> builds it.
\<close>

record Message =
  MessageID :: int
  From_ID :: int64
  Chat_ID :: int64
  msg_Text :: string
  IsCommand :: bool
  Command :: string
  CommandArguments :: string

record MessageConfig =
  ChatID :: int64
  Text :: string
  ReplyToMessageID :: int

definition NewMessage :: "int64 \<Rightarrow> string \<Rightarrow> MessageConfig" where
  "NewMessage chatID txt = \<lparr>ChatID = chatID, Text = txt, ReplyToMessageID = 0\<rparr>"

text \<open>
  \<open>Handler\<close> holds pointers to the client and to the manager. The client is never
  written after its construction; the manager is, so a handler function returns
  the handler with the manager as it left it.
\<close>

record Handler =
  apiClient :: Client
  convManager :: Manager

definition NewHandler :: "Client \<Rightarrow> Manager \<Rightarrow> Handler" where
  "NewHandler c m = \<lparr>apiClient = c, convManager = m\<rparr>"

text \<open>
  A handler function returns the reply, the handler and the state of the network.
  \<open>resp.ConversationID\<close> and \<open>resp.Output\<close> dereference the pointer \<open>resp\<close>, which
  panics on nil.
\<close>

definition HandleStart ::
  "('tm, 'tools) library \<Rightarrow> Handler \<Rightarrow> wire \<Rightarrow> Message
     \<Rightarrow> (MessageConfig \<times> Handler \<times> wire) outcome" where
  "HandleStart L h w msg =
     (let args = Fields (CommandArguments msg) in
      if length args > 0
      then (let session = Some \<lparr>UserID = [], ConversationID = args ! 0\<rparr>;
                m' = UpdateSession (convManager h) (From_ID msg) session
            in Return (NewMessage (Chat_ID msg) (''Loaded conversation: '' @ args ! 0),
                       h\<lparr>convManager := m'\<rparr>, w))
      else (let req = \<lparr>Input = ''/start'', req_ConversationID = [],
                        req_UserID = FormatInt (From_ID msg), Title = ''New Conversation''\<rparr>
            in case SendMessage L (apiClient h) w req of
                 ((resp, Some err), w') \<Rightarrow>
                   Return (NewMessage (Chat_ID msg) ''Error starting new conversation'', h, w')
               | ((None, None), w') \<Rightarrow> Panic ''nil pointer dereference''
               | ((Some resp, None), w') \<Rightarrow>
                   (let m' = StartConversation (convManager h) (From_ID msg)
                               (resp_ConversationID resp)
                    in Return (NewMessage (Chat_ID msg) (Output resp),
                               h\<lparr>convManager := m'\<rparr>, w'))))"

text \<open>
  The loop of \<open>HandleList\<close> appends one formatted entry to the
  \<open>strings.Builder\<close> for each conversation, in the order of the slice.
\<close>

definition format_conversation :: "('tm, 'tools) library \<Rightarrow> 'tm Conversation \<Rightarrow> string" where
  "format_conversation L conv =
     ''ID: '' @ conv_ID conv @ ''\<newline>Title: '' @ conv_Title conv @ ''\<newline>Created: ''
       @ time_Format L (CreatedAt conv) ''2006-01-02 15:04:05'' @ ''\<newline>\<newline>''"

definition HandleList ::
  "('tm, 'tools) library \<Rightarrow> Handler \<Rightarrow> wire \<Rightarrow> Message
     \<Rightarrow> (MessageConfig \<times> Handler \<times> wire) outcome" where
  "HandleList L h w msg =
     (case GetConversations L (apiClient h) w of
        ((conversations, Some err), w') \<Rightarrow>
          Return (NewMessage (Chat_ID msg) ''Error retrieving conversations'', h, w')
      | ((conversations, None), w') \<Rightarrow>
          if length conversations = 0
          then Return (NewMessage (Chat_ID msg) ''No conversations found'', h, w')
          else (let response =
                      foldl (\<lambda>builder conv. builder @ format_conversation L conv)
                        ''Recent conversations:\<newline>\<newline>'' conversations
                in Return (NewMessage (Chat_ID msg) response, h, w')))"

definition HandleMessage ::
  "('tm, 'tools) library \<Rightarrow> Handler \<Rightarrow> wire \<Rightarrow> Message
     \<Rightarrow> (MessageConfig \<times> Handler \<times> wire) outcome" where
  "HandleMessage L h w msg =
     (let session = GetSession (convManager h) (From_ID msg);
          conversationID = (case session of None \<Rightarrow> [] | Some s \<Rightarrow> ConversationID s);
          req = \<lparr>Input = msg_Text msg, req_ConversationID = conversationID,
                 req_UserID = FormatInt (From_ID msg), Title = []\<rparr>
      in case SendMessage L (apiClient h) w req of
           ((resp, Some err), w') \<Rightarrow>
             Return (NewMessage (Chat_ID msg) ''Error processing message'', h, w')
         | ((None, None), w') \<Rightarrow> Panic ''nil pointer dereference''
         | ((Some resp, None), w') \<Rightarrow>
             (let h' = (if conversationID = []
                        then h\<lparr>convManager :=
                               StartConversation (convManager h) (From_ID msg)
                                 (resp_ConversationID resp)\<rparr>
                        else h)
              in Return (NewMessage (Chat_ID msg) (Output resp), h', w')))"

definition HandleServers ::
  "('tm, 'tools) library \<Rightarrow> Handler \<Rightarrow> wire \<Rightarrow> Message
     \<Rightarrow> (MessageConfig \<times> Handler \<times> wire) outcome" where
  "HandleServers L h w msg =
     (case GetTools L (apiClient h) w of
        ((tools, Some err), w') \<Rightarrow>
          Return (NewMessage (Chat_ID msg) ''Error retrieving server information'', h, w')
      | ((tools, None), w') \<Rightarrow>
          Return (NewMessage (Chat_ID msg) (''Available tools: '' @ Sprint_tools L tools), h, w'))"

section \<open>Package main\<close>

text \<open>
  An update holds a pointer to a message, which may be nil. The state of the loop
  is the handler, the state of the network and the replies handed to \<open>bot.Send\<close> so
  far (an error of \<open>bot.Send\<close> is logged and changes nothing). \<open>process_update\<close> is
  the body of the loop over the channel of updates, \<open>run_updates\<close> the loop, and
  \<open>main\<close> starts the program on an environment and the updates the channel
  delivers. The goroutine that waits for a signal is not modelled.
\<close>

type_synonym Update = "Message option"

type_synonym loop_state = "Handler \<times> wire \<times> MessageConfig list"

definition dispatch ::
  "('tm, 'tools) library \<Rightarrow> Handler \<Rightarrow> wire \<Rightarrow> Message
     \<Rightarrow> (MessageConfig \<times> Handler \<times> wire) outcome" where
  "dispatch L h w m =
     (if IsCommand m
      then (if Command m = ''start'' then HandleStart L h w m
            else if Command m = ''list'' then HandleList L h w m
            else if Command m = ''servers'' then HandleServers L h w m
            else Return (NewMessage (Chat_ID m) ''Unknown command'', h, w))
      else HandleMessage L h w m)"

definition process_update ::
  "('tm, 'tools) library \<Rightarrow> loop_state \<Rightarrow> Update \<Rightarrow> loop_state outcome" where
  "process_update L st update =
     (case st of (h, w, sent) \<Rightarrow>
        (case update of
           None \<Rightarrow> Return (h, w, sent)
         | Some m \<Rightarrow>
             (case dispatch L h w m of
                Panic p \<Rightarrow> Panic p
              | Fatal f \<Rightarrow> Fatal f
              | Return (msg, h', w') \<Rightarrow>
                  Return (h', w', sent @ [msg\<lparr>ReplyToMessageID := MessageID m\<rparr>]))))"

fun run_updates ::
  "('tm, 'tools) library \<Rightarrow> loop_state \<Rightarrow> Update list \<Rightarrow> loop_state outcome" where
  "run_updates L st [] = Return st"
| "run_updates L st (u # us) =
     (case process_update L st u of
        Panic p \<Rightarrow> Panic p
      | Fatal f \<Rightarrow> Fatal f
      | Return st' \<Rightarrow> run_updates L st' us)"

definition main ::
  "('tm, 'tools) library \<Rightarrow> environ \<Rightarrow> Update list \<Rightarrow> loop_state outcome" where
  "main L env updates =
     (let cfg = New env in
      if TelegramToken cfg = [] then Fatal ''TELEGRAM_BOT_TOKEN is required''
      else (let apiClient = NewClient (APIServerURL cfg);
                convManager = NewManager;
                handler = NewHandler apiClient convManager
            in case NewBotAPI L (TelegramToken cfg) of
                 Some err \<Rightarrow> Fatal (''Error creating bot: '' @ err)
               | None \<Rightarrow> run_updates L (handler, [], []) updates))"

section \<open>An example backend\<close>

text \<open>
  Concrete values for the parameters, on which the theorems below are run.
  \<open>plain_encode\<close> writes the JSON object of a request whose strings need no
  escaping, leaving out the empty optional fields. The example backend answers
  every POST with the chat body and every GET with a list of two conversations; its
  decoder knows these two bodies. The other three libraries differ from it only in
  what the network gives: no connection, status 500, and a body that is not JSON.
\<close>

definition plain_encode :: "ChatRequest \<Rightarrow> string" where
  "plain_encode req =
     ''{\"input\":\"'' @ Input req @ ''\"''
     @ (if req_ConversationID req = [] then []
        else '',\"conversation_id\":\"'' @ req_ConversationID req @ ''\"'')
     @ (if req_UserID req = [] then [] else '',\"user_id\":\"'' @ req_UserID req @ ''\"'')
     @ (if Title req = [] then [] else '',\"title\":\"'' @ Title req @ ''\"'')
     @ ''}''"

definition example_chat_body :: string where
  "example_chat_body = ''{\"output\":\"hi\",\"conversation_id\":\"abc123\"}''"

definition example_list_body :: string where
  "example_list_body =
     ''{\"conversations\":[{\"id\":\"c2\",\"title\":\"Second\",\"created_at\":\"2024-05-02T10:00:00Z\"},{\"id\":\"c1\",\"title\":\"First\",\"created_at\":\"2024-05-01T09:30:00Z\"}]}''"

definition example_conversations :: "string Conversation list" where
  "example_conversations =
     [\<lparr>conv_ID = ''c2'', conv_Title = ''Second'', CreatedAt = ''2024-05-02 10:00:00'',
        Messages = []\<rparr>,
      \<lparr>conv_ID = ''c1'', conv_Title = ''First'', CreatedAt = ''2024-05-01 09:30:00'',
        Messages = []\<rparr>]"

definition example_library :: "(string, string) library" where
  "example_library =
     \<lparr>roundTrip = (\<lambda>hc n r. case r of
          HttpPost url ct body \<Rightarrow> Inr \<lparr>StatusCode = 200, Body = example_chat_body\<rparr>
        | HttpGet url \<Rightarrow> Inr \<lparr>StatusCode = 200, Body = example_list_body\<rparr>),
      encode = plain_encode,
      decode_ChatResponse = (\<lambda>b. if b = example_chat_body
          then Inr \<lparr>Output = ''hi'', resp_ConversationID = ''abc123''\<rparr>
          else Inl ''unexpected end of JSON input''),
      decode_Conversations = (\<lambda>b. if b = example_list_body
          then Inr example_conversations else Inl ''unexpected end of JSON input''),
      decode_Tools = (\<lambda>b. Inl ''unexpected end of JSON input''),
      time_Format = (\<lambda>t layout. t),
      Sprint_tools = (\<lambda>t. ''map[]''),
      NewBotAPI = (\<lambda>token. None)\<rparr>"

definition example_handler :: Handler where
  "example_handler = NewHandler (NewClient ''http://localhost:8080'') NewManager"

definition text_message :: "int64 \<Rightarrow> string \<Rightarrow> Message" where
  "text_message u t =
     \<lparr>MessageID = 1, From_ID = u, Chat_ID = u, msg_Text = t, IsCommand = False,
      Command = [], CommandArguments = []\<rparr>"

definition command_message :: "int64 \<Rightarrow> string \<Rightarrow> string \<Rightarrow> Message" where
  "command_message u c a =
     \<lparr>MessageID = 1, From_ID = u, Chat_ID = u,
      msg_Text = (if a = [] then CHR ''/'' # c else CHR ''/'' # c @ '' '' @ a),
      IsCommand = True, Command = c, CommandArguments = a\<rparr>"

definition refusing_library :: "(string, string) library" where
  "refusing_library =
     example_library\<lparr>roundTrip := (\<lambda>hc n r. Inl ''connection refused'')\<rparr>"

definition failing_library :: "(string, string) library" where
  "failing_library =
     example_library\<lparr>roundTrip :=
       (\<lambda>hc n r. Inr \<lparr>StatusCode = 500, Body = ''Internal Server Error''\<rparr>)\<rparr>"

definition garbled_library :: "(string, string) library" where
  "garbled_library =
     example_library\<lparr>roundTrip := (\<lambda>hc n r. Inr \<lparr>StatusCode = 200, Body = ''<html>''\<rparr>)\<rparr>"

section \<open>Auxiliary facts\<close>

lemma SendMessage_wire:
  "snd (SendMessage L c w req) =
     w @ [HttpPost (baseURL c @ ''/chat'') ''application/json'' (encode L req)]"
  by (simp add: SendMessage_def json_Marshal_def http_Post_def split: sum.split)

lemma SendMessage_result:
  "fst (SendMessage L c w req) =
     (case roundTrip L (httpClient c) (length w)
             (HttpPost (baseURL c @ ''/chat'') ''application/json'' (encode L req)) of
        Inl e \<Rightarrow> (None, Some (SendingRequest e))
      | Inr resp \<Rightarrow>
          if StatusCode resp \<noteq> StatusOK
          then (None, Some (UnexpectedStatusCode (StatusCode resp)))
          else (case decode_ChatResponse L (Body resp) of
                  Inl e \<Rightarrow> (None, Some (DecodingResponse e))
                | Inr v \<Rightarrow> (Some v, None)))"
  by (simp add: SendMessage_def json_Marshal_def http_Post_def split: sum.split)

lemma SendMessage_one_side:
  "SendMessage L c w req = ((r, e), w') \<Longrightarrow> (r = None) \<noteq> (e = None)"
  using SendMessage_result [of L c w req]
  by (auto split: sum.splits if_splits)

lemma SendMessage_ok:
  assumes "SendMessage L c w req = ((r, None), w')"
  obtains resp where "r = Some resp"
  using SendMessage_one_side [OF assms] by auto

lemma SendMessage_failed:
  assumes "SendMessage L c w req = ((r, Some e), w')"
  shows "r = None"
  using SendMessage_one_side [OF assms] by auto

lemma foldl_append_concat:
  "foldl (\<lambda>builder x. builder @ f x) acc xs = acc @ concat (map f xs)"
  by (induction xs arbitrary: acc) simp_all

lemma GetSession_StartConversation:
  "GetSession (StartConversation m u c) v =
     (if v = u then Some \<lparr>UserID = [], ConversationID = c\<rparr> else GetSession m v)"
  by (simp add: GetSession_def StartConversation_def)

lemma GetSession_UpdateSession:
  "GetSession (UpdateSession m u p) v = (if v = u then p else GetSession m v)"
  by (simp add: GetSession_def UpdateSession_def)

lemma HandleMessage_ok:
  assumes "SendMessage L (apiClient h) w
             \<lparr>Input = msg_Text msg,
              req_ConversationID =
                (case GetSession (convManager h) (From_ID msg) of
                   None \<Rightarrow> [] | Some s \<Rightarrow> ConversationID s),
              req_UserID = FormatInt (From_ID msg), Title = []\<rparr> = ((Some resp, None), w')"
  shows "HandleMessage L h w msg =
           Return (NewMessage (Chat_ID msg) (Output resp),
             (if (case GetSession (convManager h) (From_ID msg) of
                    None \<Rightarrow> [] | Some s \<Rightarrow> ConversationID s) = []
              then h\<lparr>convManager :=
                     StartConversation (convManager h) (From_ID msg) (resp_ConversationID resp)\<rparr>
              else h), w')"
  using assms by (simp add: HandleMessage_def Let_def)

lemma HandleMessage_failed:
  assumes "SendMessage L (apiClient h) w
             \<lparr>Input = msg_Text msg,
              req_ConversationID =
                (case GetSession (convManager h) (From_ID msg) of
                   None \<Rightarrow> [] | Some s \<Rightarrow> ConversationID s),
              req_UserID = FormatInt (From_ID msg), Title = []\<rparr> = ((r, Some e), w')"
  shows "HandleMessage L h w msg =
           Return (NewMessage (Chat_ID msg) ''Error processing message'', h, w')"
  using assms by (simp add: HandleMessage_def Let_def split: option.split)

lemma HandleStart_ok:
  assumes "Fields (CommandArguments msg) = []"
    and "SendMessage L (apiClient h) w
             \<lparr>Input = ''/start'', req_ConversationID = [],
              req_UserID = FormatInt (From_ID msg), Title = ''New Conversation''\<rparr>
           = ((Some resp, None), w')"
  shows "HandleStart L h w msg =
           Return (NewMessage (Chat_ID msg) (Output resp),
             h\<lparr>convManager :=
                 StartConversation (convManager h) (From_ID msg) (resp_ConversationID resp)\<rparr>, w')"
  using assms by (simp add: HandleStart_def Let_def)

lemma HandleStart_failed:
  assumes "Fields (CommandArguments msg) = []"
    and "SendMessage L (apiClient h) w
             \<lparr>Input = ''/start'', req_ConversationID = [],
              req_UserID = FormatInt (From_ID msg), Title = ''New Conversation''\<rparr>
           = ((r, Some e), w')"
  shows "HandleStart L h w msg =
           Return (NewMessage (Chat_ID msg) ''Error starting new conversation'', h, w')"
  using assms by (simp add: HandleStart_def Let_def split: option.split)

lemma HandleStart_args:
  assumes "Fields (CommandArguments msg) = a # rest"
  shows "HandleStart L h w msg =
           Return (NewMessage (Chat_ID msg) (''Loaded conversation: '' @ a),
             h\<lparr>convManager :=
                 UpdateSession (convManager h) (From_ID msg)
                   (Some \<lparr>UserID = [], ConversationID = a\<rparr>)\<rparr>, w)"
  using assms by (simp add: HandleStart_def Let_def)

lemma example_SendMessage:
  "SendMessage example_library (NewClient url) w req =
     ((Some \<lparr>Output = ''hi'', resp_ConversationID = ''abc123''\<rparr>, None),
      w @ [HttpPost (url @ ''/chat'') ''application/json'' (plain_encode req)])"
  by (simp add: SendMessage_def json_Marshal_def http_Post_def example_library_def
      NewClient_def StatusOK_def)

lemma FormatInt_42: "FormatInt 42 = ''42''"
  by (simp add: FormatInt_def itoa_def decimal.simps digit_def)

lemma FormatInt_7: "FormatInt 7 = ''7''"
  by (simp add: FormatInt_def itoa_def decimal.simps digit_def)

lemma example_handler_sel:
  "apiClient example_handler = NewClient ''http://localhost:8080''"
  "convManager example_handler = NewManager"
  by (simp_all add: example_handler_def NewHandler_def)

lemma GetSession_NewManager: "GetSession NewManager u = None"
  by (simp add: GetSession_def NewManager_def)

lemma Fields_empty: "Fields [] = []"
  by (simp add: Fields_def flush_def)

lemma Fields_xyz: "Fields ''xyz'' = [''xyz'']"
  by (simp add: Fields_def flush_def)

lemma command_message_sel:
  "From_ID (command_message u c a) = u"
  "Chat_ID (command_message u c a) = u"
  "CommandArguments (command_message u c a) = a"
  by (simp_all add: command_message_def)

lemma failing_SendMessage:
  "SendMessage failing_library (NewClient url) w req =
     ((None, Some (UnexpectedStatusCode 500)),
      w @ [HttpPost (url @ ''/chat'') ''application/json'' (plain_encode req)])"
  by (simp add: SendMessage_def json_Marshal_def http_Post_def failing_library_def
      example_library_def NewClient_def StatusOK_def)

lemma GetConversations_wire:
  "snd (GetConversations L c w) = w @ [HttpGet (baseURL c @ ''/conversations'')]"
  by (simp add: GetConversations_def http_Get_def split: sum.split)

lemma GetConversations_result:
  "fst (GetConversations L c w) =
     (case roundTrip L (httpClient c) (length w) (HttpGet (baseURL c @ ''/conversations'')) of
        Inl e \<Rightarrow> ([], Some (GettingConversations e))
      | Inr resp \<Rightarrow>
          if StatusCode resp \<noteq> StatusOK
          then ([], Some (UnexpectedStatusCode (StatusCode resp)))
          else (case decode_Conversations L (Body resp) of
                  Inl e \<Rightarrow> ([], Some (DecodingResponse e))
                | Inr result \<Rightarrow> (result, None)))"
  by (simp add: GetConversations_def http_Get_def split: sum.split)

lemma HandleList_eq:
  "HandleList L h w msg =
     Return (NewMessage (Chat_ID msg)
        (case fst (GetConversations L (apiClient h) w) of
           (conversations, Some err) \<Rightarrow> ''Error retrieving conversations''
         | (conversations, None) \<Rightarrow>
             if conversations = [] then ''No conversations found''
             else ''Recent conversations:\<newline>\<newline>''
                  @ concat (map (format_conversation L) conversations)),
        h, snd (GetConversations L (apiClient h) w))"
  by (cases "GetConversations L (apiClient h) w")
     (auto simp: HandleList_def Let_def foldl_append_concat split: option.split)

lemma Getenv_other: "k' \<noteq> k \<Longrightarrow> Getenv (env(k := v)) k' = Getenv env k'"
  by (simp add: Getenv_def)

lemma New_limit_frame:
  "TelegramToken (New (env(''DEFAULT_CONVERSATION_LIMIT'' := v))) = TelegramToken (New env)"
  "APIServerURL (New (env(''DEFAULT_CONVERSATION_LIMIT'' := v))) = APIServerURL (New env)"
  by (simp_all add: New_def getEnvOrDefault_def Getenv_other)

lemma main_limit_frame:
  "main L (env(''DEFAULT_CONVERSATION_LIMIT'' := v)) updates = main L env updates"
  by (simp add: main_def Let_def New_limit_frame)

lemma New_token: "TelegramToken (New env) = Getenv env ''TELEGRAM_BOT_TOKEN''"
  by (simp add: New_def getEnvOrDefault_def Let_def)

lemma main_started:
  assumes "Getenv env ''TELEGRAM_BOT_TOKEN'' \<noteq> []"
    and "NewBotAPI L (Getenv env ''TELEGRAM_BOT_TOKEN'') = None"
  shows "main L env updates =
           run_updates L (NewHandler (NewClient (APIServerURL (New env))) NewManager, [], [])
             updates"
  using assms by (simp add: main_def Let_def New_token)

lemma Atoi_1: "Atoi ''1'' = Inr 1"
  by (simp add: Atoi_def)

lemma UpdateSession_fresh:
  "UpdateSession m u (Some \<lparr>UserID = [], ConversationID = c\<rparr>) = StartConversation m u c"
  by (simp add: UpdateSession_def StartConversation_def)

lemma HandleMessage_shape:
  "\<exists>reply h'.
     HandleMessage L h w m
       = Return (reply, h',
           w @ [HttpPost (baseURL (apiClient h) @ ''/chat'') ''application/json''
                  (encode L
                     \<lparr>Input = msg_Text m,
                      req_ConversationID =
                        (case GetSession (convManager h) (From_ID m) of
                           None \<Rightarrow> [] | Some s \<Rightarrow> ConversationID s),
                      req_UserID = FormatInt (From_ID m), Title = []\<rparr>)])
     \<and> (h' = h
        \<or> (\<exists>c. h' = h\<lparr>convManager := StartConversation (convManager h) (From_ID m) c\<rparr>))"
proof -
  let ?req = "\<lparr>Input = msg_Text m,
               req_ConversationID =
                 (case GetSession (convManager h) (From_ID m) of
                    None \<Rightarrow> [] | Some s \<Rightarrow> ConversationID s),
               req_UserID = FormatInt (From_ID m), Title = []\<rparr>"
  obtain r e w' where sm: "SendMessage L (apiClient h) w ?req = ((r, e), w')"
    by (metis surj_pair)
  have w': "w' = w @ [HttpPost (baseURL (apiClient h) @ ''/chat'') ''application/json''
                        (encode L ?req)]"
    using SendMessage_wire [of L "apiClient h" w ?req] sm by simp
  show ?thesis
  proof (cases e)
    case None
    with sm obtain resp where "r = Some resp"
      using SendMessage_ok by blast
    with sm None show ?thesis
      by (auto simp: HandleMessage_ok w' simp del: append.simps)
  next
    case (Some err)
    with sm show ?thesis
      by (auto simp: HandleMessage_failed w' simp del: append.simps)
  qed
qed

lemma HandleStart_shape:
  "\<exists>reply h'.
     HandleStart L h w m
       = Return (reply, h',
           if Fields (CommandArguments m) = []
           then w @ [HttpPost (baseURL (apiClient h) @ ''/chat'') ''application/json''
                       (encode L
                          \<lparr>Input = ''/start'', req_ConversationID = [],
                           req_UserID = FormatInt (From_ID m), Title = ''New Conversation''\<rparr>)]
           else w)
     \<and> (h' = h
        \<or> (\<exists>c. h' = h\<lparr>convManager := StartConversation (convManager h) (From_ID m) c\<rparr>))"
proof (cases "Fields (CommandArguments m)")
  case (Cons a rest)
  then show ?thesis
    by (auto simp: HandleStart_args UpdateSession_fresh)
next
  case Nil
  let ?req = "\<lparr>Input = ''/start'', req_ConversationID = [],
               req_UserID = FormatInt (From_ID m), Title = ''New Conversation''\<rparr>"
  obtain r e w' where sm: "SendMessage L (apiClient h) w ?req = ((r, e), w')"
    by (metis surj_pair)
  have w': "w' = w @ [HttpPost (baseURL (apiClient h) @ ''/chat'') ''application/json''
                        (encode L ?req)]"
    using SendMessage_wire [of L "apiClient h" w ?req] sm by simp
  show ?thesis
  proof (cases e)
    case None
    with sm obtain resp where "r = Some resp"
      using SendMessage_ok by blast
    with sm None Nil show ?thesis
      by (auto simp: HandleStart_ok w' simp del: append.simps)
  next
    case (Some err)
    with sm Nil show ?thesis
      by (auto simp: HandleStart_failed w' simp del: append.simps)
  qed
qed

lemma HandleServers_shape:
  "\<exists>reply w'. HandleServers L h w m = Return (reply, h, w')"
  by (cases "GetTools L (apiClient h) w")
     (auto simp: HandleServers_def split: option.split prod.split)

lemma dispatch_shape:
  "\<exists>reply h' w'.
     dispatch L h w m = Return (reply, h', w')
     \<and> (h' = h
        \<or> (\<exists>c. h' = h\<lparr>convManager := StartConversation (convManager h) (From_ID m) c\<rparr>))"
proof -
  from HandleMessage_shape [of L h w m] have a: "\<exists>reply h' w'.
     HandleMessage L h w m = Return (reply, h', w')
     \<and> (h' = h
        \<or> (\<exists>c. h' = h\<lparr>convManager := StartConversation (convManager h) (From_ID m) c\<rparr>))"
    by blast
  from HandleStart_shape [of L h w m] have b: "\<exists>reply h' w'.
     HandleStart L h w m = Return (reply, h', w')
     \<and> (h' = h
        \<or> (\<exists>c. h' = h\<lparr>convManager := StartConversation (convManager h) (From_ID m) c\<rparr>))"
    by blast
  have c: "\<exists>reply h' w'. HandleList L h w m = Return (reply, h', w') \<and> h' = h"
    by (simp add: HandleList_eq)
  from HandleServers_shape [of L h w m]
  have d: "\<exists>reply h' w'. HandleServers L h w m = Return (reply, h', w') \<and> h' = h"
    by blast
  from a b c d show ?thesis
    unfolding dispatch_def by (simp split: if_split) blast
qed

lemma StartConversation_keeps_UserID_empty:
  assumes "\<forall>u s. GetSession m u = Some s \<longrightarrow> UserID s = []"
  shows "\<forall>u s. GetSession (StartConversation m v c) u = Some s \<longrightarrow> UserID s = []"
  using assms by (auto simp: GetSession_StartConversation split: if_splits)

lemma dispatch_keeps_UserID_empty:
  assumes inv: "\<forall>u s. GetSession (convManager h) u = Some s \<longrightarrow> UserID s = []"
    and run: "dispatch L h w m = Return (reply, h', w')"
  shows "\<forall>u s. GetSession (convManager h') u = Some s \<longrightarrow> UserID s = []"
proof -
  from dispatch_shape [of L h w m] run
  have "h' = h \<or> (\<exists>c. h' = h\<lparr>convManager := StartConversation (convManager h) (From_ID m) c\<rparr>)"
    by auto
  then show ?thesis
  proof
    assume "h' = h"
    with inv show ?thesis by simp
  next
    assume "\<exists>c. h' = h\<lparr>convManager := StartConversation (convManager h) (From_ID m) c\<rparr>"
    then obtain c where "convManager h' = StartConversation (convManager h) (From_ID m) c"
      by auto
    with StartConversation_keeps_UserID_empty [OF inv, of "From_ID m" c] show ?thesis
      by simp
  qed
qed

lemma run_updates_keeps_UserID_empty:
  assumes "\<forall>u s. GetSession (convManager h) u = Some s \<longrightarrow> UserID s = []"
    and "run_updates L (h, w, sent) us = Return (h', w', sent')"
  shows "\<forall>u s. GetSession (convManager h') u = Some s \<longrightarrow> UserID s = []"
  using assms
proof (induction us arbitrary: h w sent)
  case Nil
  then show ?case by simp
next
  case (Cons x us)
  show ?case
  proof (cases x)
    case None
    with Cons.prems(2) have "run_updates L (h, w, sent) us = Return (h', w', sent')"
      by (simp add: process_update_def)
    with Cons.IH Cons.prems(1) show ?thesis by blast
  next
    case (Some m)
    from dispatch_shape [of L h w m] obtain reply h1 w1 where
      d: "dispatch L h w m = Return (reply, h1, w1)"
      by blast
    with Some Cons.prems(2)
    have rest: "run_updates L (h1, w1, sent @ [reply\<lparr>ReplyToMessageID := MessageID m\<rparr>]) us
            = Return (h', w', sent')"
      by (simp add: process_update_def)
    from dispatch_keeps_UserID_empty [OF Cons.prems(1) d]
    have "\<forall>u s. GetSession (convManager h1) u = Some s \<longrightarrow> UserID s = []" .
    with Cons.IH rest show ?thesis by blast
  qed
qed

lemma main_keeps_UserID_empty:
  assumes "main L env updates = Return (h', w', sent)"
  shows "\<forall>u s. GetSession (convManager h') u = Some s \<longrightarrow> UserID s = []"
proof -
  let ?h = "NewHandler (NewClient (APIServerURL (New env))) NewManager"
  have init: "\<forall>u s. GetSession (convManager ?h) u = Some s \<longrightarrow> UserID s = []"
    by (simp add: NewHandler_def GetSession_NewManager)
  from assms have "run_updates L (?h, [], []) updates = Return (h', w', sent)"
    by (simp add: main_def Let_def split: if_splits option.splits)
  with init show ?thesis
    by (rule run_updates_keeps_UserID_empty)
qed

lemma example_MessageID:
  "MessageID (command_message u c a) = 1"
  "MessageID (text_message u t) = 1"
  by (simp_all add: command_message_def text_message_def)

lemma example_run:
  "main example_library [''TELEGRAM_BOT_TOKEN'' \<mapsto> ''123:abc'']
     [Some (command_message 42 ''start'' []), None, Some (text_message 42 ''hello''),
      Some (command_message 7 ''start'' ''xyz'')]
   = Return
       (example_handler\<lparr>convManager :=
          StartConversation (StartConversation NewManager 42 ''abc123'') 7 ''xyz''\<rparr>,
        [HttpPost ''http://localhost:8080/chat'' ''application/json''
           ''{\"input\":\"/start\",\"user_id\":\"42\",\"title\":\"New Conversation\"}'',
         HttpPost ''http://localhost:8080/chat'' ''application/json''
           ''{\"input\":\"hello\",\"conversation_id\":\"abc123\",\"user_id\":\"42\"}''],
        [\<lparr>ChatID = 42, Text = ''hi'', ReplyToMessageID = 1\<rparr>,
         \<lparr>ChatID = 42, Text = ''hi'', ReplyToMessageID = 1\<rparr>,
         \<lparr>ChatID = 7, Text = ''Loaded conversation: xyz'', ReplyToMessageID = 1\<rparr>])"
proof -
  let ?h0 = "NewHandler (NewClient ''http://localhost:8080'') NewManager"
  let ?h1 = "?h0\<lparr>convManager := StartConversation NewManager 42 ''abc123''\<rparr>"
  let ?h2 = "?h0\<lparr>convManager :=
               StartConversation (StartConversation NewManager 42 ''abc123'') 7 ''xyz''\<rparr>"
  let ?p1 = "HttpPost ''http://localhost:8080/chat'' ''application/json''
               ''{\"input\":\"/start\",\"user_id\":\"42\",\"title\":\"New Conversation\"}''"
  let ?p2 = "HttpPost ''http://localhost:8080/chat'' ''application/json''
               ''{\"input\":\"hello\",\"conversation_id\":\"abc123\",\"user_id\":\"42\"}''"
  have d1: "dispatch example_library ?h0 [] (command_message 42 ''start'' [])
              = Return (NewMessage 42 ''hi'', ?h1, [?p1])"
    by (simp add: dispatch_def command_message_def HandleStart_def Fields_empty
        NewHandler_def example_SendMessage plain_encode_def FormatInt_42)
  have d2: "dispatch example_library ?h1 [?p1] (text_message 42 ''hello'')
              = Return (NewMessage 42 ''hi'', ?h1, [?p1, ?p2])"
    by (simp add: dispatch_def text_message_def HandleMessage_def NewHandler_def
        GetSession_StartConversation example_SendMessage plain_encode_def FormatInt_42)
  have d3: "dispatch example_library ?h1 [?p1, ?p2] (command_message 7 ''start'' ''xyz'')
              = Return (NewMessage 7 ''Loaded conversation: xyz'', ?h2, [?p1, ?p2])"
    by (simp add: dispatch_def command_message_def HandleStart_def Fields_xyz
        NewHandler_def UpdateSession_fresh)
  have "run_updates example_library (?h0, [], [])
          [Some (command_message 42 ''start'' []), None, Some (text_message 42 ''hello''),
           Some (command_message 7 ''start'' ''xyz'')]
        = Return (?h2, [?p1, ?p2],
            [\<lparr>ChatID = 42, Text = ''hi'', ReplyToMessageID = 1\<rparr>,
             \<lparr>ChatID = 42, Text = ''hi'', ReplyToMessageID = 1\<rparr>,
             \<lparr>ChatID = 7, Text = ''Loaded conversation: xyz'', ReplyToMessageID = 1\<rparr>])"
    by (simp add: process_update_def d1 d2 d3 NewMessage_def example_MessageID)
  moreover have "main example_library [''TELEGRAM_BOT_TOKEN'' \<mapsto> ''123:abc''] us
        = run_updates example_library (?h0, [], []) us" for us
    by (simp add: main_def Let_def New_def getEnvOrDefault_def Getenv_def example_library_def)
  ultimately show ?thesis
    by (simp add: example_handler_def)
qed

lemma Fields_from_no_space:
  "\<forall>i<length s. space_width (drop i s) = 0 \<Longrightarrow> Fields_from 0 s cur = flush (cur @ s)"
proof (induction s arbitrary: cur)
  case Nil
  then show ?case by simp
next
  case (Cons c cs)
  from Cons.prems have head: "space_width (c # cs) = 0"
    by (metis drop0 length_greater_0_conv list.distinct(1))
  have tail: "\<forall>i<length cs. space_width (drop i cs) = 0"
  proof (intro allI impI)
    fix i assume "i < length cs"
    then have "Suc i < length (c # cs)" by simp
    with Cons.prems have "space_width (drop (Suc i) (c # cs)) = 0" by blast
    then show "space_width (drop i cs) = 0" by simp
  qed
  from Cons.IH [OF tail, of "cur @ [c]"] head show ?case
    by (simp del: space_width.simps)
qed

lemma Fields_no_space:
  assumes "s \<noteq> []" and "\<forall>i<length s. space_width (drop i s) = 0"
  shows "Fields s = [s]"
  using Fields_from_no_space [OF assms(2), of "[]"] assms(1)
  by (simp add: Fields_def flush_def)

section \<open>Properties of the session store\<close>

text \<open>
  Claim C6. For every user, every conversation identity and every prior state of the
  store, \<open>StartConversation\<close> followed by \<open>GetSession\<close> for the same user returns a
  session whose conversation identity is exactly the one given. The session returned
  is the fresh one (its \<open>UserID\<close> is empty whatever the prior session held), and the
  sessions of all other users are as before.
\<close>

theorem StartConversation_then_GetSession:
  "GetSession (StartConversation m u c) u = Some \<lparr>UserID = [], ConversationID = c\<rparr>
   \<and> ConversationID (the (GetSession (StartConversation m u c) u)) = c
   \<and> GetSession (StartConversation m u c) v =
       (if v = u then Some \<lparr>UserID = [], ConversationID = c\<rparr> else GetSession m v)"
  by (simp add: GetSession_def StartConversation_def)

theorem StartConversation_then_GetSession_witness:
  "GetSession (UpdateSession NewManager 7
       (Some \<lparr>UserID = ''someone'', ConversationID = ''old''\<rparr>)) 7
     = Some \<lparr>UserID = ''someone'', ConversationID = ''old''\<rparr>
   \<and> GetSession (StartConversation (UpdateSession NewManager 7
         (Some \<lparr>UserID = ''someone'', ConversationID = ''old''\<rparr>)) 7 ''new'') 7
     = Some \<lparr>UserID = [], ConversationID = ''new''\<rparr>
   \<and> GetSession (StartConversation NewManager 7 ''new'') 7
     = Some \<lparr>UserID = [], ConversationID = ''new''\<rparr>"
  using
    StartConversation_then_GetSession [of "UpdateSession NewManager 7
         (Some \<lparr>UserID = ''someone'', ConversationID = ''old''\<rparr>)" 7 "''new''" 7]
    StartConversation_then_GetSession [of NewManager 7 "''new''" 7]
  by (simp add: GetSession_UpdateSession)

text \<open>
  Claim C7. For every user and every state of the store, \<open>ClearSession\<close> followed by
  \<open>GetSession\<close> returns the absent result (nil), and leaves what \<open>GetSession\<close>
  returns for every other user. Clearing a user whose key is absent leaves the store
  equal to what it was; clearing a user for whom \<open>GetSession\<close> returns nil changes
  nothing that \<open>GetSession\<close> returns; and clearing twice is the same as clearing
  once. \<open>ClearSession\<close> is a total function of the store: it has no failing branch.
\<close>

theorem ClearSession_then_GetSession:
  "GetSession (ClearSession m u) u = None
   \<and> GetSession (ClearSession m u) v = (if v = u then None else GetSession m v)
   \<and> (sessions m u = None \<longrightarrow> ClearSession m u = m)
   \<and> (GetSession m u = None \<longrightarrow> GetSession (ClearSession m u) v = GetSession m v)
   \<and> ClearSession (ClearSession m u) u = ClearSession m u"
proof -
  have cleared: "GetSession (ClearSession m u) x = (if x = u then None else GetSession m x)"
    for x
    by (simp add: GetSession_def ClearSession_def)
  have noop: "ClearSession m u = m" if "sessions m u = None"
  proof -
    from that have "(sessions m)(u := None) = sessions m"
      by (simp add: fun_upd_idem)
    then show ?thesis by (simp add: ClearSession_def)
  qed
  have unseen: "GetSession (ClearSession m u) v = GetSession m v" if "GetSession m u = None"
    using that by (simp add: cleared)
  have twice: "ClearSession (ClearSession m u) u = ClearSession m u"
    by (simp add: ClearSession_def)
  from cleared [of u] cleared [of v] noop unseen twice show ?thesis by simp
qed

theorem ClearSession_then_GetSession_witness:
  "sessions NewManager 7 = None
   \<and> ClearSession NewManager 7 = NewManager
   \<and> GetSession (StartConversation NewManager 7 ''xyz'') 7
       = Some \<lparr>UserID = [], ConversationID = ''xyz''\<rparr>
   \<and> GetSession (ClearSession (StartConversation NewManager 7 ''xyz'') 7) 7 = None
   \<and> GetSession (UpdateSession NewManager 7 None) 7 = None
   \<and> GetSession (ClearSession (UpdateSession NewManager 7 None) 7) 42
       = GetSession (UpdateSession NewManager 7 None) 42"
proof -
  have absent: "sessions NewManager 7 = None"
    by (simp add: NewManager_def)
  have nil: "GetSession (UpdateSession NewManager 7 None) 7 = None"
    by (simp add: GetSession_UpdateSession)
  have stored: "GetSession (StartConversation NewManager 7 ''xyz'') 7
       = Some \<lparr>UserID = [], ConversationID = ''xyz''\<rparr>"
    by (simp add: GetSession_StartConversation)
  from ClearSession_then_GetSession [of NewManager 7] absent
  have one: "ClearSession NewManager 7 = NewManager"
    by blast
  from ClearSession_then_GetSession [of "StartConversation NewManager 7 ''xyz''" 7]
  have two: "GetSession (ClearSession (StartConversation NewManager 7 ''xyz'') 7) 7 = None"
    by blast
  from ClearSession_then_GetSession [of "UpdateSession NewManager 7 None" 7 42] nil
  have three: "GetSession (ClearSession (UpdateSession NewManager 7 None) 7) 42
       = GetSession (UpdateSession NewManager 7 None) 42"
    by blast
  from absent one stored two nil three show ?thesis by simp
qed

section \<open>Properties of the backend client\<close>

text \<open>
  Claim C4. \<open>SendMessage\<close> makes exactly one exchange on the network, the POST of the
  encoded request to \<open>/chat\<close> (the state of the network grows by that one request,
  whatever the outcome), and returns either a response and no error or an error and
  no response, never both and never neither. Which one is settled by the exchange:
  when the HTTP client reports an error (no connection, timeout) the result is the
  sending error that wraps it; when a response arrives with a status other than 200
  the result is the status error carrying that status; when the status is 200 and
  the decoder rejects the body the result is the decoding error; when the status is
  200 and the decoder accepts the body the result is the decoded response. The client
  built by \<open>NewClient\<close> has a timeout of 30 seconds.
\<close>

theorem SendMessage_outcome:
  "(case SendMessage L c w req of
      (res, w') \<Rightarrow>
        w' = w @ [HttpPost (baseURL c @ ''/chat'') ''application/json'' (encode L req)]
        \<and> (fst res = None) \<noteq> (snd res = None)
        \<and> (\<forall>e. roundTrip L (httpClient c) (length w)
                  (HttpPost (baseURL c @ ''/chat'') ''application/json'' (encode L req)) = Inl e
              \<longrightarrow> res = (None, Some (SendingRequest e)))
        \<and> (\<forall>resp. roundTrip L (httpClient c) (length w)
                  (HttpPost (baseURL c @ ''/chat'') ''application/json'' (encode L req)) = Inr resp
              \<longrightarrow> (if StatusCode resp \<noteq> 200
                   then res = (None, Some (UnexpectedStatusCode (StatusCode resp)))
                   else (case decode_ChatResponse L (Body resp) of
                           Inl e \<Rightarrow> res = (None, Some (DecodingResponse e))
                         | Inr v \<Rightarrow> res = (Some v, None)))))
   \<and> Timeout (httpClient (NewClient url)) = 30 * Second"
proof -
  obtain res w' where sm: "SendMessage L c w req = (res, w')"
    by (cases "SendMessage L c w req")
  have w': "w' = w @ [HttpPost (baseURL c @ ''/chat'') ''application/json'' (encode L req)]"
    using SendMessage_wire [of L c w req] sm by simp
  have res: "res =
     (case roundTrip L (httpClient c) (length w)
             (HttpPost (baseURL c @ ''/chat'') ''application/json'' (encode L req)) of
        Inl e \<Rightarrow> (None, Some (SendingRequest e))
      | Inr resp \<Rightarrow>
          if StatusCode resp \<noteq> StatusOK
          then (None, Some (UnexpectedStatusCode (StatusCode resp)))
          else (case decode_ChatResponse L (Body resp) of
                  Inl e \<Rightarrow> (None, Some (DecodingResponse e))
                | Inr v \<Rightarrow> (Some v, None)))"
    using SendMessage_result [of L c w req] sm by simp
  have one: "(fst res = None) \<noteq> (snd res = None)"
    using SendMessage_one_side [of L c w req "fst res" "snd res" w'] sm by simp
  have cases:
    "(\<forall>e. roundTrip L (httpClient c) (length w)
                  (HttpPost (baseURL c @ ''/chat'') ''application/json'' (encode L req)) = Inl e
              \<longrightarrow> res = (None, Some (SendingRequest e)))
     \<and> (\<forall>resp. roundTrip L (httpClient c) (length w)
                  (HttpPost (baseURL c @ ''/chat'') ''application/json'' (encode L req)) = Inr resp
              \<longrightarrow> (if StatusCode resp \<noteq> 200
                   then res = (None, Some (UnexpectedStatusCode (StatusCode resp)))
                   else (case decode_ChatResponse L (Body resp) of
                           Inl e \<Rightarrow> res = (None, Some (DecodingResponse e))
                         | Inr v \<Rightarrow> res = (Some v, None))))"
    by (simp add: res StatusOK_def split: sum.split)
  have t: "Timeout (httpClient (NewClient url)) = 30 * Second"
    by (simp add: NewClient_def)
  from w' one cases t show ?thesis by (simp add: sm)
qed

theorem SendMessage_outcome_witness:
  "SendMessage refusing_library (NewClient ''http://localhost:8080'') []
       \<lparr>Input = ''hello'', req_ConversationID = [], req_UserID = ''42'', Title = []\<rparr>
     = ((None, Some (SendingRequest ''connection refused'')),
        [HttpPost ''http://localhost:8080/chat'' ''application/json''
           ''{\"input\":\"hello\",\"user_id\":\"42\"}''])
   \<and> SendMessage failing_library (NewClient ''http://localhost:8080'') []
       \<lparr>Input = ''hello'', req_ConversationID = [], req_UserID = ''42'', Title = []\<rparr>
     = ((None, Some (UnexpectedStatusCode 500)),
        [HttpPost ''http://localhost:8080/chat'' ''application/json''
           ''{\"input\":\"hello\",\"user_id\":\"42\"}''])
   \<and> SendMessage garbled_library (NewClient ''http://localhost:8080'') []
       \<lparr>Input = ''hello'', req_ConversationID = [], req_UserID = ''42'', Title = []\<rparr>
     = ((None, Some (DecodingResponse ''unexpected end of JSON input'')),
        [HttpPost ''http://localhost:8080/chat'' ''application/json''
           ''{\"input\":\"hello\",\"user_id\":\"42\"}''])
   \<and> SendMessage example_library (NewClient ''http://localhost:8080'') []
       \<lparr>Input = ''hello'', req_ConversationID = [], req_UserID = ''42'', Title = []\<rparr>
     = ((Some \<lparr>Output = ''hi'', resp_ConversationID = ''abc123''\<rparr>, None),
        [HttpPost ''http://localhost:8080/chat'' ''application/json''
           ''{\"input\":\"hello\",\"user_id\":\"42\"}''])"
proof -
  let ?c = "NewClient ''http://localhost:8080''"
  let ?req = "\<lparr>Input = ''hello'', req_ConversationID = [], req_UserID = ''42'', Title = []\<rparr>"
  let ?post = "HttpPost ''http://localhost:8080/chat'' ''application/json''
                 ''{\"input\":\"hello\",\"user_id\":\"42\"}''"
  have post: "HttpPost (baseURL ?c @ ''/chat'') ''application/json'' (plain_encode ?req) = ?post"
    by (simp add: NewClient_def plain_encode_def)
  have enc: "encode refusing_library = plain_encode" "encode failing_library = plain_encode"
    "encode garbled_library = plain_encode" "encode example_library = plain_encode"
    by (simp_all add: refusing_library_def failing_library_def garbled_library_def
        example_library_def)
  have refused: "roundTrip refusing_library (httpClient ?c) (length ([] :: wire)) ?post
                   = Inl ''connection refused''"
    by (simp add: refusing_library_def)
  have failed: "roundTrip failing_library (httpClient ?c) (length ([] :: wire)) ?post
                  = Inr \<lparr>StatusCode = 500, Body = ''Internal Server Error''\<rparr>"
    by (simp add: failing_library_def)
  have garbled: "roundTrip garbled_library (httpClient ?c) (length ([] :: wire)) ?post
                  = Inr \<lparr>StatusCode = 200, Body = ''<html>''\<rparr>"
    by (simp add: garbled_library_def)
  have garbled_body: "decode_ChatResponse garbled_library ''<html>''
                        = Inl ''unexpected end of JSON input''"
    by (simp add: garbled_library_def example_library_def example_chat_body_def)
  have answered: "roundTrip example_library (httpClient ?c) (length ([] :: wire)) ?post
                  = Inr \<lparr>StatusCode = 200, Body = example_chat_body\<rparr>"
    by (simp add: example_library_def)
  have answered_body: "decode_ChatResponse example_library example_chat_body
                        = Inr \<lparr>Output = ''hi'', resp_ConversationID = ''abc123''\<rparr>"
    by (simp add: example_library_def)
  have one: "SendMessage refusing_library ?c [] ?req
               = ((None, Some (SendingRequest ''connection refused'')), [?post])"
    using SendMessage_outcome [where L = refusing_library and c = ?c and w = "[]" and req = ?req] refused
    by (cases "SendMessage refusing_library ?c [] ?req") (simp add: enc post)
  have two: "SendMessage failing_library ?c [] ?req
               = ((None, Some (UnexpectedStatusCode 500)), [?post])"
    using SendMessage_outcome [where L = failing_library and c = ?c and w = "[]" and req = ?req] failed
    by (cases "SendMessage failing_library ?c [] ?req") (simp add: enc post)
  have three: "SendMessage garbled_library ?c [] ?req
               = ((None, Some (DecodingResponse ''unexpected end of JSON input'')), [?post])"
    using SendMessage_outcome [where L = garbled_library and c = ?c and w = "[]" and req = ?req] garbled garbled_body
    by (cases "SendMessage garbled_library ?c [] ?req") (simp add: enc post)
  have four: "SendMessage example_library ?c [] ?req
               = ((Some \<lparr>Output = ''hi'', resp_ConversationID = ''abc123''\<rparr>, None), [?post])"
    using SendMessage_outcome [where L = example_library and c = ?c and w = "[]" and req = ?req] answered answered_body
    by (cases "SendMessage example_library ?c [] ?req") (simp add: enc post)
  from one two three four show ?thesis by simp
qed

section \<open>Properties of the handlers\<close>

text \<open>
  Claim C1. When the exchange of \<open>HandleMessage\<close> succeeds (\<open>SendMessage\<close> returns no
  error), the handler returns a reply whose text is the output of the backend's
  response. If the sender's session had a non-empty conversation identity, the
  handler and its store are returned as they were, so that session is the one
  \<open>GetSession\<close> still returns. If the sender had no session, or a session whose
  conversation identity is empty, \<open>GetSession\<close> afterwards returns a fresh session
  whose conversation identity is the one the backend returned. The sessions of all
  other users are as before.
\<close>

theorem HandleMessage_success:
  assumes sm: "SendMessage L (apiClient h) w
             \<lparr>Input = msg_Text msg,
              req_ConversationID =
                (case GetSession (convManager h) (From_ID msg) of
                   None \<Rightarrow> [] | Some s \<Rightarrow> ConversationID s),
              req_UserID = FormatInt (From_ID msg), Title = []\<rparr> = ((r, None), w')"
  shows "\<exists>resp h'.
           r = Some resp
           \<and> HandleMessage L h w msg = Return (NewMessage (Chat_ID msg) (Output resp), h', w')
           \<and> Text (NewMessage (Chat_ID msg) (Output resp)) = Output resp
           \<and> (\<forall>s. GetSession (convManager h) (From_ID msg) = Some s \<and> ConversationID s \<noteq> []
                 \<longrightarrow> h' = h \<and> GetSession (convManager h') (From_ID msg) = Some s)
           \<and> (GetSession (convManager h) (From_ID msg) = None
                \<or> (\<exists>s. GetSession (convManager h) (From_ID msg) = Some s \<and> ConversationID s = [])
               \<longrightarrow> GetSession (convManager h') (From_ID msg)
                     = Some \<lparr>UserID = [], ConversationID = resp_ConversationID resp\<rparr>)
           \<and> (\<forall>v. v \<noteq> From_ID msg
                 \<longrightarrow> GetSession (convManager h') v = GetSession (convManager h) v)"
proof -
  from sm obtain resp where r: "r = Some resp"
    by (rule SendMessage_ok)
  let ?cid = "case GetSession (convManager h) (From_ID msg) of
                None \<Rightarrow> [] | Some s \<Rightarrow> ConversationID s"
  let ?h' = "if ?cid = []
             then h\<lparr>convManager :=
                    StartConversation (convManager h) (From_ID msg) (resp_ConversationID resp)\<rparr>
             else h"
  have run: "HandleMessage L h w msg = Return (NewMessage (Chat_ID msg) (Output resp), ?h', w')"
    using sm r by (simp add: HandleMessage_ok)
  have reply_text: "Text (NewMessage (Chat_ID msg) (Output resp)) = Output resp"
    by (simp add: NewMessage_def)
  have kept: "\<forall>s. GetSession (convManager h) (From_ID msg) = Some s \<and> ConversationID s \<noteq> []
                 \<longrightarrow> ?h' = h \<and> GetSession (convManager ?h') (From_ID msg) = Some s"
    by simp
  have fresh: "GetSession (convManager h) (From_ID msg) = None
                \<or> (\<exists>s. GetSession (convManager h) (From_ID msg) = Some s \<and> ConversationID s = [])
               \<longrightarrow> GetSession (convManager ?h') (From_ID msg)
                     = Some \<lparr>UserID = [], ConversationID = resp_ConversationID resp\<rparr>"
    by (auto simp: GetSession_StartConversation)
  have others: "\<forall>v. v \<noteq> From_ID msg
                 \<longrightarrow> GetSession (convManager ?h') v = GetSession (convManager h) v"
    by (simp add: GetSession_StartConversation)
  from r run reply_text kept fresh others show ?thesis by blast
qed

theorem HandleMessage_success_witness:
  "GetSession (convManager example_handler) 42 = None
   \<and> (\<exists>h'. HandleMessage example_library example_handler [] (text_message 42 ''hello'')
             = Return (NewMessage 42 ''hi'', h',
                 [HttpPost ''http://localhost:8080/chat'' ''application/json''
                    ''{\"input\":\"hello\",\"user_id\":\"42\"}''])
           \<and> GetSession (convManager h') 42
               = Some \<lparr>UserID = [], ConversationID = ''abc123''\<rparr>)
   \<and> GetSession (StartConversation NewManager 7 ''xyz'') 7
       = Some \<lparr>UserID = [], ConversationID = ''xyz''\<rparr>
   \<and> HandleMessage example_library
         (example_handler\<lparr>convManager := StartConversation NewManager 7 ''xyz''\<rparr>) []
         (text_message 7 ''hello'')
       = Return (NewMessage 7 ''hi'',
           example_handler\<lparr>convManager := StartConversation NewManager 7 ''xyz''\<rparr>,
           [HttpPost ''http://localhost:8080/chat'' ''application/json''
              ''{\"input\":\"hello\",\"conversation_id\":\"xyz\",\"user_id\":\"7\"}''])"
proof -
  let ?m42 = "text_message 42 ''hello''" and ?m7 = "text_message 7 ''hello''"
  let ?h7 = "example_handler\<lparr>convManager := StartConversation NewManager 7 ''xyz''\<rparr>"
  let ?w42 = "[HttpPost ''http://localhost:8080/chat'' ''application/json''
                 ''{\"input\":\"hello\",\"user_id\":\"42\"}'']"
  let ?w7 = "[HttpPost ''http://localhost:8080/chat'' ''application/json''
                ''{\"input\":\"hello\",\"conversation_id\":\"xyz\",\"user_id\":\"7\"}'']"
  let ?resp = "\<lparr>Output = ''hi'', resp_ConversationID = ''abc123''\<rparr>"
  have none: "GetSession (convManager example_handler) 42 = None"
    by (simp add: example_handler_sel GetSession_NewManager)
  have some: "GetSession (StartConversation NewManager 7 ''xyz'') 7
                = Some \<lparr>UserID = [], ConversationID = ''xyz''\<rparr>"
    by (simp add: GetSession_StartConversation)
  have sm42: "SendMessage example_library (apiClient example_handler) []
      \<lparr>Input = msg_Text ?m42,
       req_ConversationID =
         (case GetSession (convManager example_handler) (From_ID ?m42) of
            None \<Rightarrow> [] | Some s \<Rightarrow> ConversationID s),
       req_UserID = FormatInt (From_ID ?m42), Title = []\<rparr> = ((Some ?resp, None), ?w42)"
    by (simp add: example_handler_sel GetSession_NewManager example_SendMessage
        text_message_def plain_encode_def FormatInt_42)
  have sm7: "SendMessage example_library (apiClient ?h7) []
      \<lparr>Input = msg_Text ?m7,
       req_ConversationID =
         (case GetSession (convManager ?h7) (From_ID ?m7) of
            None \<Rightarrow> [] | Some s \<Rightarrow> ConversationID s),
       req_UserID = FormatInt (From_ID ?m7), Title = []\<rparr> = ((Some ?resp, None), ?w7)"
    by (simp add: example_handler_sel GetSession_StartConversation example_SendMessage
        text_message_def plain_encode_def FormatInt_7)
  from HandleMessage_success [OF sm42] obtain resp h' where
    r: "Some ?resp = Some resp"
    and run: "HandleMessage example_library example_handler [] ?m42
               = Return (NewMessage (Chat_ID ?m42) (Output resp), h', ?w42)"
    and fresh: "GetSession (convManager example_handler) (From_ID ?m42) = None
        \<or> (\<exists>s. GetSession (convManager example_handler) (From_ID ?m42) = Some s
                \<and> ConversationID s = [])
       \<longrightarrow> GetSession (convManager h') (From_ID ?m42)
             = Some \<lparr>UserID = [], ConversationID = resp_ConversationID resp\<rparr>"
    by blast
  from r have resp: "resp = ?resp" by simp
  have first: "\<exists>h'. HandleMessage example_library example_handler [] ?m42
             = Return (NewMessage 42 ''hi'', h', ?w42)
           \<and> GetSession (convManager h') 42
               = Some \<lparr>UserID = [], ConversationID = ''abc123''\<rparr>"
    using run fresh none by (auto simp: resp text_message_def)
  from HandleMessage_success [OF sm7] obtain resp7 h7 where
    r7: "Some ?resp = Some resp7"
    and run7: "HandleMessage example_library ?h7 [] ?m7
               = Return (NewMessage (Chat_ID ?m7) (Output resp7), h7, ?w7)"
    and kept: "\<forall>s. GetSession (convManager ?h7) (From_ID ?m7) = Some s \<and> ConversationID s \<noteq> []
                 \<longrightarrow> h7 = ?h7 \<and> GetSession (convManager h7) (From_ID ?m7) = Some s"
    by blast
  from kept some have "h7 = ?h7"
    by (simp add: text_message_def)
  with run7 r7 have second: "HandleMessage example_library ?h7 [] ?m7
       = Return (NewMessage 7 ''hi'', ?h7, ?w7)"
    by (auto simp: text_message_def)
  from none first some second show ?thesis by blast
qed

text \<open>
  Claim C2. For a \<open>/start\<close> command without arguments whose exchange succeeds, the
  handler returns a reply whose text is the output of the backend's response and
  installs for the sender a session whose conversation identity is the one the
  backend returned; \<open>GetSession\<close> for the sender then returns that session. This
  holds whatever the store held for the sender before, and so for a sender with no
  prior session. On the example backend, which answers with output \<open>hi\<close> and
  conversation identity \<open>abc123\<close>, the command from user 42 is answered by \<open>hi\<close> and
  \<open>GetSession\<close> for 42 then yields \<open>abc123\<close>.
\<close>

theorem HandleStart_new_conversation:
  assumes noargs: "Fields (CommandArguments msg) = []"
    and sm: "SendMessage L (apiClient h) w
               \<lparr>Input = ''/start'', req_ConversationID = [],
                req_UserID = FormatInt (From_ID msg), Title = ''New Conversation''\<rparr>
             = ((r, None), w')"
  shows "\<exists>resp h'.
           r = Some resp
           \<and> HandleStart L h w msg = Return (NewMessage (Chat_ID msg) (Output resp), h', w')
           \<and> Text (NewMessage (Chat_ID msg) (Output resp)) = Output resp
           \<and> GetSession (convManager h') (From_ID msg)
               = Some \<lparr>UserID = [], ConversationID = resp_ConversationID resp\<rparr>
           \<and> ConversationID (the (GetSession (convManager h') (From_ID msg)))
               = resp_ConversationID resp"
proof -
  from sm obtain resp where r: "r = Some resp"
    by (rule SendMessage_ok)
  let ?h' = "h\<lparr>convManager :=
               StartConversation (convManager h) (From_ID msg) (resp_ConversationID resp)\<rparr>"
  have run: "HandleStart L h w msg = Return (NewMessage (Chat_ID msg) (Output resp), ?h', w')"
    using noargs sm r by (simp add: HandleStart_ok)
  have reply_text: "Text (NewMessage (Chat_ID msg) (Output resp)) = Output resp"
    by (simp add: NewMessage_def)
  have got: "GetSession (convManager ?h') (From_ID msg)
               = Some \<lparr>UserID = [], ConversationID = resp_ConversationID resp\<rparr>"
    by (simp add: GetSession_StartConversation)
  then have ident: "ConversationID (the (GetSession (convManager ?h') (From_ID msg)))
               = resp_ConversationID resp"
    by simp
  from r run reply_text got ident show ?thesis by blast
qed

theorem HandleStart_new_conversation_witness:
  "GetSession (convManager example_handler) 42 = None
   \<and> decode_ChatResponse example_library ''{\"output\":\"hi\",\"conversation_id\":\"abc123\"}''
       = Inr \<lparr>Output = ''hi'', resp_ConversationID = ''abc123''\<rparr>
   \<and> (\<exists>h'. HandleStart example_library example_handler [] (command_message 42 ''start'' [])
             = Return (NewMessage 42 ''hi'', h',
                 [HttpPost ''http://localhost:8080/chat'' ''application/json''
                    ''{\"input\":\"/start\",\"user_id\":\"42\",\"title\":\"New Conversation\"}''])
           \<and> Text (NewMessage 42 ''hi'') = ''hi''
           \<and> GetSession (convManager h') 42
               = Some \<lparr>UserID = [], ConversationID = ''abc123''\<rparr>)"
proof -
  let ?m = "command_message 42 ''start'' []"
  let ?w = "[HttpPost ''http://localhost:8080/chat'' ''application/json''
               ''{\"input\":\"/start\",\"user_id\":\"42\",\"title\":\"New Conversation\"}'']"
  let ?resp = "\<lparr>Output = ''hi'', resp_ConversationID = ''abc123''\<rparr>"
  have none: "GetSession (convManager example_handler) 42 = None"
    by (simp add: example_handler_sel GetSession_NewManager)
  have body: "decode_ChatResponse example_library
                ''{\"output\":\"hi\",\"conversation_id\":\"abc123\"}'' = Inr ?resp"
    by (simp add: example_library_def example_chat_body_def)
  have noargs: "Fields (CommandArguments ?m) = []"
    by (simp add: command_message_sel Fields_empty)
  have sm: "SendMessage example_library (apiClient example_handler) []
              \<lparr>Input = ''/start'', req_ConversationID = [],
               req_UserID = FormatInt (From_ID ?m), Title = ''New Conversation''\<rparr>
            = ((Some ?resp, None), ?w)"
    by (simp add: example_handler_sel example_SendMessage command_message_sel
        plain_encode_def FormatInt_42)
  from HandleStart_new_conversation [OF noargs sm] obtain resp h' where
    r: "Some ?resp = Some resp"
    and run: "HandleStart example_library example_handler [] ?m
               = Return (NewMessage (Chat_ID ?m) (Output resp), h', ?w)"
    and reply_text: "Text (NewMessage (Chat_ID ?m) (Output resp)) = Output resp"
    and got: "GetSession (convManager h') (From_ID ?m)
               = Some \<lparr>UserID = [], ConversationID = resp_ConversationID resp\<rparr>"
    by blast
  from r have resp: "resp = ?resp" by simp
  have "\<exists>h'. HandleStart example_library example_handler [] ?m
             = Return (NewMessage 42 ''hi'', h', ?w)
           \<and> Text (NewMessage 42 ''hi'') = ''hi''
           \<and> GetSession (convManager h') 42
               = Some \<lparr>UserID = [], ConversationID = ''abc123''\<rparr>"
    using run reply_text got by (auto simp: resp command_message_sel)
  with none body show ?thesis by blast
qed

text \<open>
  Claim C3. When the exchange fails (\<open>SendMessage\<close> returns an error, of any kind),
  \<open>HandleMessage\<close> replies with its fixed error text and \<open>HandleStart\<close>, on a command
  without arguments, with its own; both return the handler exactly as it was given,
  so every entry of the session store is what it was before the event. A response
  with status 500 is such a failure.
\<close>

theorem failed_exchange_leaves_sessions:
  "(\<forall>r e w'.
       SendMessage L (apiClient h) w
         \<lparr>Input = msg_Text msg,
          req_ConversationID =
            (case GetSession (convManager h) (From_ID msg) of
               None \<Rightarrow> [] | Some s \<Rightarrow> ConversationID s),
          req_UserID = FormatInt (From_ID msg), Title = []\<rparr> = ((r, Some e), w')
       \<longrightarrow> HandleMessage L h w msg
             = Return (NewMessage (Chat_ID msg) ''Error processing message'', h, w')
           \<and> Text (NewMessage (Chat_ID msg) ''Error processing message'')
               = ''Error processing message'')
   \<and> (\<forall>r e w'.
       Fields (CommandArguments msg) = []
       \<and> SendMessage L (apiClient h) w
           \<lparr>Input = ''/start'', req_ConversationID = [],
            req_UserID = FormatInt (From_ID msg), Title = ''New Conversation''\<rparr>
         = ((r, Some e), w')
       \<longrightarrow> HandleStart L h w msg
             = Return (NewMessage (Chat_ID msg) ''Error starting new conversation'', h, w')
           \<and> Text (NewMessage (Chat_ID msg) ''Error starting new conversation'')
               = ''Error starting new conversation'')
   \<and> (\<forall>req resp.
       roundTrip L (httpClient (apiClient h)) (length w)
         (HttpPost (baseURL (apiClient h) @ ''/chat'') ''application/json'' (encode L req))
         = Inr resp \<and> StatusCode resp = 500
       \<longrightarrow> fst (SendMessage L (apiClient h) w req) = (None, Some (UnexpectedStatusCode 500)))"
proof -
  have msg_path: "HandleMessage L h w msg
             = Return (NewMessage (Chat_ID msg) ''Error processing message'', h, w')"
    if "SendMessage L (apiClient h) w
         \<lparr>Input = msg_Text msg,
          req_ConversationID =
            (case GetSession (convManager h) (From_ID msg) of
               None \<Rightarrow> [] | Some s \<Rightarrow> ConversationID s),
          req_UserID = FormatInt (From_ID msg), Title = []\<rparr> = ((r, Some e), w')"
    for r e w'
    using that by (rule HandleMessage_failed)
  have start_path: "HandleStart L h w msg
             = Return (NewMessage (Chat_ID msg) ''Error starting new conversation'', h, w')"
    if "Fields (CommandArguments msg) = []"
      and "SendMessage L (apiClient h) w
           \<lparr>Input = ''/start'', req_ConversationID = [],
            req_UserID = FormatInt (From_ID msg), Title = ''New Conversation''\<rparr>
         = ((r, Some e), w')"
    for r e w'
    using that by (rule HandleStart_failed)
  have status: "fst (SendMessage L (apiClient h) w req) = (None, Some (UnexpectedStatusCode 500))"
    if "roundTrip L (httpClient (apiClient h)) (length w)
         (HttpPost (baseURL (apiClient h) @ ''/chat'') ''application/json'' (encode L req))
         = Inr resp" and "StatusCode resp = 500"
    for req resp
    using that by (simp add: SendMessage_result StatusOK_def)
  have texts: "Text (NewMessage (Chat_ID msg) ''Error processing message'')
               = ''Error processing message''"
    "Text (NewMessage (Chat_ID msg) ''Error starting new conversation'')
               = ''Error starting new conversation''"
    by (simp_all add: NewMessage_def)
  from msg_path start_path status texts show ?thesis by blast
qed

theorem failed_exchange_leaves_sessions_witness:
  "GetSession (StartConversation NewManager 7 ''xyz'') 7
       = Some \<lparr>UserID = [], ConversationID = ''xyz''\<rparr>
   \<and> HandleMessage failing_library
         (example_handler\<lparr>convManager := StartConversation NewManager 7 ''xyz''\<rparr>) []
         (text_message 7 ''hello'')
       = Return (NewMessage 7 ''Error processing message'',
           example_handler\<lparr>convManager := StartConversation NewManager 7 ''xyz''\<rparr>,
           [HttpPost ''http://localhost:8080/chat'' ''application/json''
              ''{\"input\":\"hello\",\"conversation_id\":\"xyz\",\"user_id\":\"7\"}''])
   \<and> HandleStart failing_library
         (example_handler\<lparr>convManager := StartConversation NewManager 7 ''xyz''\<rparr>) []
         (command_message 7 ''start'' [])
       = Return (NewMessage 7 ''Error starting new conversation'',
           example_handler\<lparr>convManager := StartConversation NewManager 7 ''xyz''\<rparr>,
           [HttpPost ''http://localhost:8080/chat'' ''application/json''
              ''{\"input\":\"/start\",\"user_id\":\"7\",\"title\":\"New Conversation\"}''])"
proof -
  let ?m = "text_message 7 ''hello''" and ?s = "command_message 7 ''start'' []"
  let ?h = "example_handler\<lparr>convManager := StartConversation NewManager 7 ''xyz''\<rparr>"
  let ?wm = "[HttpPost ''http://localhost:8080/chat'' ''application/json''
                ''{\"input\":\"hello\",\"conversation_id\":\"xyz\",\"user_id\":\"7\"}'']"
  let ?ws = "[HttpPost ''http://localhost:8080/chat'' ''application/json''
                ''{\"input\":\"/start\",\"user_id\":\"7\",\"title\":\"New Conversation\"}'']"
  have some: "GetSession (StartConversation NewManager 7 ''xyz'') 7
                = Some \<lparr>UserID = [], ConversationID = ''xyz''\<rparr>"
    by (simp add: GetSession_StartConversation)
  have smm: "SendMessage failing_library (apiClient ?h) []
      \<lparr>Input = msg_Text ?m,
       req_ConversationID =
         (case GetSession (convManager ?h) (From_ID ?m) of
            None \<Rightarrow> [] | Some s \<Rightarrow> ConversationID s),
       req_UserID = FormatInt (From_ID ?m), Title = []\<rparr>
      = ((None, Some (UnexpectedStatusCode 500)), ?wm)"
    by (simp add: example_handler_sel GetSession_StartConversation failing_SendMessage
        text_message_def plain_encode_def FormatInt_7)
  have noargs: "Fields (CommandArguments ?s) = []"
    by (simp add: command_message_sel Fields_empty)
  have sms: "SendMessage failing_library (apiClient ?h) []
              \<lparr>Input = ''/start'', req_ConversationID = [],
               req_UserID = FormatInt (From_ID ?s), Title = ''New Conversation''\<rparr>
            = ((None, Some (UnexpectedStatusCode 500)), ?ws)"
    by (simp add: example_handler_sel failing_SendMessage command_message_sel
        plain_encode_def FormatInt_7)
  note inst = failed_exchange_leaves_sessions [where L = failing_library and h = ?h and w = "[]"]
  have first: "HandleMessage failing_library ?h [] ?m
       = Return (NewMessage 7 ''Error processing message'', ?h, ?wm)"
    using inst [where msg = ?m] smm by (simp add: text_message_def)
  have second: "HandleStart failing_library ?h [] ?s
       = Return (NewMessage 7 ''Error starting new conversation'', ?h, ?ws)"
    using inst [where msg = ?s] noargs sms by (simp add: command_message_sel)
  from some first second show ?thesis by simp
qed

text \<open>
  Claim C5. For a \<open>/start\<close> command whose arguments have a first field \<open>a\<close>, the
  handler returns the reply \<open>Loaded conversation: a\<close>, leaves the state of the
  network as it was (no request is made), and \<open>GetSession\<close> for the sender
  afterwards returns a session whose conversation identity is \<open>a\<close>. When the
  arguments are not empty and hold no white space, their first field is the
  arguments themselves. For the argument \<open>xyz\<close> from user 7 the reply is
  \<open>Loaded conversation: xyz\<close>, here with a backend that would fail every request.
\<close>

theorem HandleStart_resume:
  "(\<forall>a rest.
      Fields (CommandArguments msg) = a # rest
      \<longrightarrow> (\<exists>h'.
            HandleStart L h w msg
              = Return (NewMessage (Chat_ID msg) (''Loaded conversation: '' @ a), h', w)
            \<and> Text (NewMessage (Chat_ID msg) (''Loaded conversation: '' @ a))
                = ''Loaded conversation: '' @ a
            \<and> GetSession (convManager h') (From_ID msg)
                = Some \<lparr>UserID = [], ConversationID = a\<rparr>))
   \<and> (CommandArguments msg \<noteq> []
       \<and> (\<forall>i<length (CommandArguments msg). space_width (drop i (CommandArguments msg)) = 0)
      \<longrightarrow> Fields (CommandArguments msg) = [CommandArguments msg])"
proof -
  have resume: "\<exists>h'.
            HandleStart L h w msg
              = Return (NewMessage (Chat_ID msg) (''Loaded conversation: '' @ a), h', w)
            \<and> Text (NewMessage (Chat_ID msg) (''Loaded conversation: '' @ a))
                = ''Loaded conversation: '' @ a
            \<and> GetSession (convManager h') (From_ID msg)
                = Some \<lparr>UserID = [], ConversationID = a\<rparr>"
    if args: "Fields (CommandArguments msg) = a # rest" for a rest
  proof -
    let ?h' = "h\<lparr>convManager :=
                 UpdateSession (convManager h) (From_ID msg)
                   (Some \<lparr>UserID = [], ConversationID = a\<rparr>)\<rparr>"
    have run: "HandleStart L h w msg
                 = Return (NewMessage (Chat_ID msg) (''Loaded conversation: '' @ a), ?h', w)"
      using args by (rule HandleStart_args)
    have reply_text: "Text (NewMessage (Chat_ID msg) (''Loaded conversation: '' @ a))
                 = ''Loaded conversation: '' @ a"
      by (simp add: NewMessage_def)
    have got: "GetSession (convManager ?h') (From_ID msg)
                 = Some \<lparr>UserID = [], ConversationID = a\<rparr>"
      by (simp add: GetSession_UpdateSession)
    from run reply_text got show ?thesis by blast
  qed
  have whole: "Fields (CommandArguments msg) = [CommandArguments msg]"
    if "CommandArguments msg \<noteq> []"
      and "\<forall>i<length (CommandArguments msg). space_width (drop i (CommandArguments msg)) = 0"
    using that by (rule Fields_no_space)
  from resume whole show ?thesis by blast
qed

theorem HandleStart_resume_witness:
  "Fields (CommandArguments (command_message 7 ''start'' ''xyz'')) = [''xyz'']
   \<and> (\<exists>h'. HandleStart failing_library example_handler [] (command_message 7 ''start'' ''xyz'')
             = Return (NewMessage 7 ''Loaded conversation: xyz'', h', [])
           \<and> Text (NewMessage 7 ''Loaded conversation: xyz'') = ''Loaded conversation: xyz''
           \<and> GetSession (convManager h') 7 = Some \<lparr>UserID = [], ConversationID = ''xyz''\<rparr>)"
proof -
  let ?m = "command_message 7 ''start'' ''xyz''"
  note inst = HandleStart_resume [where msg = ?m and L = failing_library
      and h = example_handler and w = "[]"]
  have nonempty: "CommandArguments ?m \<noteq> []"
    by (simp add: command_message_sel)
  have "space_width (drop i ''xyz'') = 0" if "i < 3" for i
  proof -
    from that have "i = 0 \<or> i = 1 \<or> i = 2" by arith
    then show ?thesis by auto
  qed
  then have no_space: "\<forall>i<length (CommandArguments ?m). space_width (drop i (CommandArguments ?m)) = 0"
    by (simp add: command_message_sel)
  from inst nonempty no_space have args: "Fields (CommandArguments ?m) = [CommandArguments ?m]"
    by blast
  with inst obtain h' where
    run: "HandleStart failing_library example_handler [] ?m
            = Return (NewMessage (Chat_ID ?m) (''Loaded conversation: '' @ CommandArguments ?m),
                h', [])"
    and got: "GetSession (convManager h') (From_ID ?m)
               = Some \<lparr>UserID = [], ConversationID = CommandArguments ?m\<rparr>"
    by blast
  have "\<exists>h'. HandleStart failing_library example_handler [] ?m
             = Return (NewMessage 7 ''Loaded conversation: xyz'', h', [])
           \<and> Text (NewMessage 7 ''Loaded conversation: xyz'') = ''Loaded conversation: xyz''
           \<and> GetSession (convManager h') 7 = Some \<lparr>UserID = [], ConversationID = ''xyz''\<rparr>"
    using run got by (auto simp: command_message_sel NewMessage_def)
  with args show ?thesis by (simp add: command_message_sel)
qed

text \<open>
  Claim C8. When the backend answers the listing request with status 200 and the
  decoder reads the list \<open>convs\<close> from the body, the reply of \<open>HandleList\<close> is
  \<open>No conversations found\<close> if \<open>convs\<close> is empty, and otherwise the heading followed
  by one entry for each conversation, with its identity, title and formatted creation
  time, the entries in the order of \<open>convs\<close>. Whatever the backend does, \<open>HandleList\<close>
  returns a reply whose text is not empty, and the handler as it was.
\<close>

theorem HandleList_reply:
  "(\<forall>resp convs.
       roundTrip L (httpClient (apiClient h)) (length w)
         (HttpGet (baseURL (apiClient h) @ ''/conversations'')) = Inr resp
       \<and> StatusCode resp = 200
       \<and> decode_Conversations L (Body resp) = Inr convs
       \<longrightarrow> HandleList L h w msg
             = Return (NewMessage (Chat_ID msg)
                 (if convs = [] then ''No conversations found''
                  else ''Recent conversations:\<newline>\<newline>''
                       @ concat (map (\<lambda>conv.
                            ''ID: '' @ conv_ID conv @ ''\<newline>Title: '' @ conv_Title conv
                            @ ''\<newline>Created: ''
                            @ time_Format L (CreatedAt conv) ''2006-01-02 15:04:05''
                            @ ''\<newline>\<newline>'') convs)),
                 h, w @ [HttpGet (baseURL (apiClient h) @ ''/conversations'')]))
   \<and> (\<exists>reply w'. HandleList L h w msg = Return (reply, h, w') \<and> Text reply \<noteq> [])"
proof -
  let ?get = "HttpGet (baseURL (apiClient h) @ ''/conversations'')"
  let ?entry = "\<lambda>conv. ''ID: '' @ conv_ID conv @ ''\<newline>Title: '' @ conv_Title conv
                  @ ''\<newline>Created: ''
                  @ time_Format L (CreatedAt conv) ''2006-01-02 15:04:05''
                  @ ''\<newline>\<newline>''"
  have entry: "format_conversation L = ?entry"
    by (rule ext) (simp add: format_conversation_def)
  have listed: "HandleList L h w msg
             = Return (NewMessage (Chat_ID msg)
                 (if convs = [] then ''No conversations found''
                  else ''Recent conversations:\<newline>\<newline>'' @ concat (map ?entry convs)),
                 h, w @ [?get])"
    if "roundTrip L (httpClient (apiClient h)) (length w) ?get = Inr resp"
      and "StatusCode resp = 200"
      and "decode_Conversations L (Body resp) = Inr convs"
    for resp convs
    using that
    by (simp add: HandleList_eq GetConversations_result GetConversations_wire StatusOK_def entry)
  have nonempty: "\<exists>reply w'. HandleList L h w msg = Return (reply, h, w') \<and> Text reply \<noteq> []"
    by (cases "fst (GetConversations L (apiClient h) w)")
       (auto simp: HandleList_eq NewMessage_def split: option.split)
  from listed nonempty show ?thesis by blast
qed

theorem HandleList_reply_witness:
  "HandleList example_library example_handler [] (command_message 7 ''list'' [])
     = Return (NewMessage 7
         ''Recent conversations:\<newline>\<newline>ID: c2\<newline>Title: Second\<newline>Created: 2024-05-02 10:00:00\<newline>\<newline>ID: c1\<newline>Title: First\<newline>Created: 2024-05-01 09:30:00\<newline>\<newline>'',
         example_handler, [HttpGet ''http://localhost:8080/conversations''])
   \<and> HandleList
         (example_library\<lparr>decode_Conversations := (\<lambda>b. Inr [])\<rparr>)
         example_handler [] (command_message 7 ''list'' [])
     = Return (NewMessage 7 ''No conversations found'',
         example_handler, [HttpGet ''http://localhost:8080/conversations''])"
proof -
  let ?m = "command_message 7 ''list'' []"
  let ?get = "HttpGet (baseURL (apiClient example_handler) @ ''/conversations'')"
  let ?E = "example_library\<lparr>decode_Conversations := (\<lambda>b. Inr [])\<rparr>"
  let ?resp = "\<lparr>StatusCode = 200, Body = example_list_body\<rparr>"
  have url: "?get = HttpGet ''http://localhost:8080/conversations''"
    by (simp add: example_handler_sel NewClient_def)
  have got: "roundTrip example_library (httpClient (apiClient example_handler))
               (length ([] :: wire)) ?get = Inr ?resp"
    "roundTrip ?E (httpClient (apiClient example_handler)) (length ([] :: wire)) ?get = Inr ?resp"
    by (simp_all add: example_library_def)
  have status: "StatusCode ?resp = 200"
    by simp
  have two: "decode_Conversations example_library (Body ?resp) = Inr example_conversations"
    by (simp add: example_library_def)
  have zero: "decode_Conversations ?E (Body ?resp) = Inr []"
    by simp
  have fmt: "time_Format example_library = (\<lambda>t layout. t)" "time_Format ?E = (\<lambda>t layout. t)"
    by (simp_all add: example_library_def)
  have first: "HandleList example_library example_handler [] ?m
     = Return (NewMessage 7
         ''Recent conversations:\<newline>\<newline>ID: c2\<newline>Title: Second\<newline>Created: 2024-05-02 10:00:00\<newline>\<newline>ID: c1\<newline>Title: First\<newline>Created: 2024-05-01 09:30:00\<newline>\<newline>'',
         example_handler, [HttpGet ''http://localhost:8080/conversations''])"
    using HandleList_reply [where L = example_library and h = example_handler
        and w = "[]" and msg = ?m] got(1) status two
    by (simp add: url fmt example_conversations_def command_message_sel)
  have second: "HandleList ?E example_handler [] ?m
     = Return (NewMessage 7 ''No conversations found'',
         example_handler, [HttpGet ''http://localhost:8080/conversations''])"
    using HandleList_reply [where L = ?E and h = example_handler
        and w = "[]" and msg = ?m] got(2) status zero
    by (simp add: url command_message_sel)
  from first second show ?thesis by simp
qed

section \<open>Properties of the program as a whole\<close>

text \<open>
  Claim C9. When \<open>TELEGRAM_BOT_TOKEN\<close> is unset or empty, \<open>main\<close> ends in \<open>log.Fatal\<close>
  before anything else happens. When \<open>API_SERVER_URL\<close> is unset or empty the base
  URL is \<open>http://localhost:8080\<close>, and when \<open>DEFAULT_CONVERSATION_LIMIT\<close> is unset or
  empty the limit is 10. The limit is read into the configuration and used by
  nothing: whatever value the variable has (or none), \<open>main\<close> behaves the same on
  every sequence of updates; in particular a \<open>/list\<close> command is answered with one
  entry for every conversation the backend returned, however many.
\<close>

theorem configuration_surface:
  "(Getenv env ''TELEGRAM_BOT_TOKEN'' = []
      \<longrightarrow> main L env updates = Fatal ''TELEGRAM_BOT_TOKEN is required'')
   \<and> (Getenv env ''API_SERVER_URL'' = []
      \<longrightarrow> APIServerURL (New env) = ''http://localhost:8080'')
   \<and> (Getenv env ''DEFAULT_CONVERSATION_LIMIT'' = []
      \<longrightarrow> DefaultConversationLimit (New env) = 10)
   \<and> main L (env(''DEFAULT_CONVERSATION_LIMIT'' := v)) updates = main L env updates
   \<and> (\<forall>m resp convs.
        Getenv env ''TELEGRAM_BOT_TOKEN'' \<noteq> []
        \<and> NewBotAPI L (Getenv env ''TELEGRAM_BOT_TOKEN'') = None
        \<and> IsCommand m \<and> Command m = ''list''
        \<and> roundTrip L (httpClient (NewClient (APIServerURL (New env)))) 0
             (HttpGet (APIServerURL (New env) @ ''/conversations'')) = Inr resp
        \<and> StatusCode resp = 200
        \<and> decode_Conversations L (Body resp) = Inr convs
        \<and> convs \<noteq> []
        \<longrightarrow> main L (env(''DEFAULT_CONVERSATION_LIMIT'' := v)) [Some m]
              = Return (NewHandler (NewClient (APIServerURL (New env))) NewManager,
                  [HttpGet (APIServerURL (New env) @ ''/conversations'')],
                  [\<lparr>ChatID = Chat_ID m,
                    Text = ''Recent conversations:\<newline>\<newline>''
                           @ concat (map (format_conversation L) convs),
                    ReplyToMessageID = MessageID m\<rparr>]))"
proof -
  have token: "main L env updates = Fatal ''TELEGRAM_BOT_TOKEN is required''"
    if "Getenv env ''TELEGRAM_BOT_TOKEN'' = []"
    using that by (simp add: main_def Let_def New_token)
  have url: "APIServerURL (New env) = ''http://localhost:8080''"
    if "Getenv env ''API_SERVER_URL'' = []"
    using that by (simp add: New_def getEnvOrDefault_def)
  have limit: "DefaultConversationLimit (New env) = 10"
    if "Getenv env ''DEFAULT_CONVERSATION_LIMIT'' = []"
    using that by (simp add: New_def getEnvIntOrDefault_def)
  have frame: "main L (env(''DEFAULT_CONVERSATION_LIMIT'' := v)) updates = main L env updates"
    by (rule main_limit_frame)
  have listing: "main L (env(''DEFAULT_CONVERSATION_LIMIT'' := v)) [Some m]
              = Return (NewHandler (NewClient (APIServerURL (New env))) NewManager,
                  [HttpGet (APIServerURL (New env) @ ''/conversations'')],
                  [\<lparr>ChatID = Chat_ID m,
                    Text = ''Recent conversations:\<newline>\<newline>''
                           @ concat (map (format_conversation L) convs),
                    ReplyToMessageID = MessageID m\<rparr>])"
    if tok: "Getenv env ''TELEGRAM_BOT_TOKEN'' \<noteq> []"
      and bot: "NewBotAPI L (Getenv env ''TELEGRAM_BOT_TOKEN'') = None"
      and cmd: "IsCommand m" "Command m = ''list''"
      and net: "roundTrip L (httpClient (NewClient (APIServerURL (New env)))) 0
             (HttpGet (APIServerURL (New env) @ ''/conversations'')) = Inr resp"
      and ok: "StatusCode resp = 200"
      and dec: "decode_Conversations L (Body resp) = Inr convs"
      and some: "convs \<noteq> []"
    for m resp convs
  proof -
    let ?h = "NewHandler (NewClient (APIServerURL (New env))) NewManager"
    have c: "apiClient ?h = NewClient (APIServerURL (New env))"
      by (simp add: NewHandler_def)
    have b: "baseURL (NewClient (APIServerURL (New env))) = APIServerURL (New env)"
      by (simp add: NewClient_def)
    have "dispatch L ?h [] m = HandleList L ?h [] m"
      using cmd by (simp add: dispatch_def)
    also have "\<dots> = Return (NewMessage (Chat_ID m)
                  (''Recent conversations:\<newline>\<newline>''
                     @ concat (map (format_conversation L) convs)),
                  ?h, [HttpGet (APIServerURL (New env) @ ''/conversations'')])"
      using net ok dec some
      by (simp add: HandleList_eq GetConversations_result GetConversations_wire c b StatusOK_def)
    finally have d: "dispatch L ?h [] m = Return (NewMessage (Chat_ID m)
                  (''Recent conversations:\<newline>\<newline>''
                     @ concat (map (format_conversation L) convs)),
                  ?h, [HttpGet (APIServerURL (New env) @ ''/conversations'')])" .
    have "run_updates L (?h, [], []) [Some m]
                 = Return (?h, [HttpGet (APIServerURL (New env) @ ''/conversations'')],
                     [\<lparr>ChatID = Chat_ID m,
                       Text = ''Recent conversations:\<newline>\<newline>''
                              @ concat (map (format_conversation L) convs),
                       ReplyToMessageID = MessageID m\<rparr>])"
      by (simp add: process_update_def d NewMessage_def)
    with tok bot show ?thesis
      by (simp add: main_limit_frame main_started)
  qed
  from token url limit frame listing show ?thesis by blast
qed

theorem configuration_surface_witness:
  "main example_library Map.empty [Some (command_message 7 ''list'' [])]
     = Fatal ''TELEGRAM_BOT_TOKEN is required''
   \<and> APIServerURL (New Map.empty) = ''http://localhost:8080''
   \<and> DefaultConversationLimit (New Map.empty) = 10
   \<and> DefaultConversationLimit
         (New [''TELEGRAM_BOT_TOKEN'' \<mapsto> ''123:abc'', ''DEFAULT_CONVERSATION_LIMIT'' \<mapsto> ''1''])
       = 1
   \<and> main example_library
         [''TELEGRAM_BOT_TOKEN'' \<mapsto> ''123:abc'', ''DEFAULT_CONVERSATION_LIMIT'' \<mapsto> ''1'']
         [Some (command_message 7 ''list'' [])]
     = Return (example_handler, [HttpGet ''http://localhost:8080/conversations''],
         [\<lparr>ChatID = 7,
           Text = ''Recent conversations:\<newline>\<newline>ID: c2\<newline>Title: Second\<newline>Created: 2024-05-02 10:00:00\<newline>\<newline>ID: c1\<newline>Title: First\<newline>Created: 2024-05-01 09:30:00\<newline>\<newline>'',
           ReplyToMessageID = 1\<rparr>])"
proof -
  let ?m = "command_message 7 ''list'' []"
  let ?env = "[''TELEGRAM_BOT_TOKEN'' \<mapsto> ''123:abc'']"
  let ?resp = "\<lparr>StatusCode = 200, Body = example_list_body\<rparr>"
  note inst0 = configuration_surface [where env = Map.empty and L = example_library
      and updates = "[Some ?m]"]
  note inst1 = configuration_surface [where env = ?env and L = example_library
      and v = "Some ''1''"]
  have unset: "Getenv Map.empty ''TELEGRAM_BOT_TOKEN'' = []"
    "Getenv Map.empty ''API_SERVER_URL'' = []"
    "Getenv Map.empty ''DEFAULT_CONVERSATION_LIMIT'' = []"
    by (simp_all add: Getenv_def)
  have fatal: "main example_library Map.empty [Some ?m] = Fatal ''TELEGRAM_BOT_TOKEN is required''"
    using inst0 unset by blast
  have url0: "APIServerURL (New Map.empty) = ''http://localhost:8080''"
    using inst0 unset by blast
  have limit0: "DefaultConversationLimit (New Map.empty) = 10"
    using inst0 unset by blast
  have limit1: "DefaultConversationLimit
         (New [''TELEGRAM_BOT_TOKEN'' \<mapsto> ''123:abc'', ''DEFAULT_CONVERSATION_LIMIT'' \<mapsto> ''1''])
       = 1"
    by (simp add: New_def getEnvIntOrDefault_def Getenv_def Atoi_1)
  have tok: "Getenv ?env ''TELEGRAM_BOT_TOKEN'' \<noteq> []"
    by (simp add: Getenv_def)
  have bot: "NewBotAPI example_library (Getenv ?env ''TELEGRAM_BOT_TOKEN'') = None"
    by (simp add: example_library_def)
  have cmd: "IsCommand ?m \<and> Command ?m = ''list''"
    by (simp add: command_message_def)
  have url: "APIServerURL (New ?env) = ''http://localhost:8080''"
    by (simp add: New_def getEnvOrDefault_def Getenv_def)
  have net: "roundTrip example_library (httpClient (NewClient (APIServerURL (New ?env)))) 0
             (HttpGet (APIServerURL (New ?env) @ ''/conversations'')) = Inr ?resp"
    by (simp add: example_library_def)
  have dec: "StatusCode ?resp = 200
      \<and> decode_Conversations example_library (Body ?resp) = Inr example_conversations
      \<and> example_conversations \<noteq> []"
    by (simp add: example_library_def example_conversations_def)
  have "main example_library (?env(''DEFAULT_CONVERSATION_LIMIT'' \<mapsto> ''1'')) [Some ?m]
          = Return (NewHandler (NewClient (APIServerURL (New ?env))) NewManager,
              [HttpGet (APIServerURL (New ?env) @ ''/conversations'')],
              [\<lparr>ChatID = Chat_ID ?m,
                Text = ''Recent conversations:\<newline>\<newline>''
                       @ concat (map (format_conversation example_library) example_conversations),
                ReplyToMessageID = MessageID ?m\<rparr>])"
    using inst1 tok bot cmd net dec by blast
  then have listed: "main example_library
         [''TELEGRAM_BOT_TOKEN'' \<mapsto> ''123:abc'', ''DEFAULT_CONVERSATION_LIMIT'' \<mapsto> ''1'']
         [Some ?m]
     = Return (example_handler, [HttpGet ''http://localhost:8080/conversations''],
         [\<lparr>ChatID = 7,
           Text = ''Recent conversations:\<newline>\<newline>ID: c2\<newline>Title: Second\<newline>Created: 2024-05-02 10:00:00\<newline>\<newline>ID: c1\<newline>Title: First\<newline>Created: 2024-05-01 09:30:00\<newline>\<newline>'',
           ReplyToMessageID = 1\<rparr>])"
    by (simp add: url example_handler_def command_message_def format_conversation_def
        example_conversations_def example_library_def)
  from fatal url0 limit0 limit1 listed show ?thesis by simp
qed

text \<open>
  Claim C10. If every session in the store has an empty \<open>UserID\<close>, then so has every
  session in the store after any event has been dispatched, whichever handler ran;
  the store \<open>main\<close> starts from is empty, so in every state \<open>main\<close> reaches every
  stored session has an empty \<open>UserID\<close>. \<open>HandleMessage\<close> always makes exactly one
  request, and \<open>HandleStart\<close> exactly one when the command has no arguments and none
  otherwise; the \<open>UserID\<close> of the request is the decimal form of the sender of the
  event, whatever the store holds. Neither handler panics.
\<close>

theorem sessions_hold_no_UserID:
  "(\<forall>reply h' w'.
       (\<forall>u s. GetSession (convManager h) u = Some s \<longrightarrow> UserID s = [])
       \<and> dispatch L h w m = Return (reply, h', w')
       \<longrightarrow> (\<forall>u s. GetSession (convManager h') u = Some s \<longrightarrow> UserID s = []))
   \<and> (\<forall>h' w' sent u s.
       main L env updates = Return (h', w', sent) \<and> GetSession (convManager h') u = Some s
       \<longrightarrow> UserID s = [])
   \<and> (\<exists>reply h'.
       HandleMessage L h w m
         = Return (reply, h',
             w @ [HttpPost (baseURL (apiClient h) @ ''/chat'') ''application/json''
                    (encode L
                       \<lparr>Input = msg_Text m,
                        req_ConversationID =
                          (case GetSession (convManager h) (From_ID m) of
                             None \<Rightarrow> [] | Some s \<Rightarrow> ConversationID s),
                        req_UserID = FormatInt (From_ID m), Title = []\<rparr>)]))
   \<and> (\<exists>reply h'.
       HandleStart L h w m
         = Return (reply, h',
             if Fields (CommandArguments m) = []
             then w @ [HttpPost (baseURL (apiClient h) @ ''/chat'') ''application/json''
                         (encode L
                            \<lparr>Input = ''/start'', req_ConversationID = [],
                             req_UserID = FormatInt (From_ID m),
                             Title = ''New Conversation''\<rparr>)]
             else w))"
proof -
  have step: "\<forall>reply h' w'.
       (\<forall>u s. GetSession (convManager h) u = Some s \<longrightarrow> UserID s = [])
       \<and> dispatch L h w m = Return (reply, h', w')
       \<longrightarrow> (\<forall>u s. GetSession (convManager h') u = Some s \<longrightarrow> UserID s = [])"
    using dispatch_keeps_UserID_empty [of h L w m] by blast
  have reach: "\<forall>h' w' sent u s.
       main L env updates = Return (h', w', sent) \<and> GetSession (convManager h') u = Some s
       \<longrightarrow> UserID s = []"
    using main_keeps_UserID_empty [of L env updates] by blast
  from HandleMessage_shape [of L h w m] have freeform: "\<exists>reply h'.
       HandleMessage L h w m
         = Return (reply, h',
             w @ [HttpPost (baseURL (apiClient h) @ ''/chat'') ''application/json''
                    (encode L
                       \<lparr>Input = msg_Text m,
                        req_ConversationID =
                          (case GetSession (convManager h) (From_ID m) of
                             None \<Rightarrow> [] | Some s \<Rightarrow> ConversationID s),
                        req_UserID = FormatInt (From_ID m), Title = []\<rparr>)])"
    by blast
  from HandleStart_shape [of L h w m] have start: "\<exists>reply h'.
       HandleStart L h w m
         = Return (reply, h',
             if Fields (CommandArguments m) = []
             then w @ [HttpPost (baseURL (apiClient h) @ ''/chat'') ''application/json''
                         (encode L
                            \<lparr>Input = ''/start'', req_ConversationID = [],
                             req_UserID = FormatInt (From_ID m),
                             Title = ''New Conversation''\<rparr>)]
             else w)"
    by blast
  from step reach freeform start show ?thesis by blast
qed

theorem sessions_hold_no_UserID_witness:
  "(\<exists>h' w' sent s.
      main example_library [''TELEGRAM_BOT_TOKEN'' \<mapsto> ''123:abc'']
        [Some (command_message 42 ''start'' []), None, Some (text_message 42 ''hello''),
         Some (command_message 7 ''start'' ''xyz'')]
        = Return (h', w', sent)
      \<and> w' = [HttpPost ''http://localhost:8080/chat'' ''application/json''
                 ''{\"input\":\"/start\",\"user_id\":\"42\",\"title\":\"New Conversation\"}'',
               HttpPost ''http://localhost:8080/chat'' ''application/json''
                 ''{\"input\":\"hello\",\"conversation_id\":\"abc123\",\"user_id\":\"42\"}'']
      \<and> GetSession (convManager h') 42 = Some s
      \<and> ConversationID s = ''abc123''
      \<and> UserID s = [])
   \<and> GetSession (UpdateSession NewManager 7
          (Some \<lparr>UserID = ''someone'', ConversationID = ''xyz''\<rparr>)) 7
       = Some \<lparr>UserID = ''someone'', ConversationID = ''xyz''\<rparr>
   \<and> (\<exists>reply h'.
        HandleMessage example_library
          (example_handler\<lparr>convManager := UpdateSession NewManager 7
             (Some \<lparr>UserID = ''someone'', ConversationID = ''xyz''\<rparr>)\<rparr>) []
          (text_message 7 ''hello'')
        = Return (reply, h',
            [HttpPost ''http://localhost:8080/chat'' ''application/json''
               ''{\"input\":\"hello\",\"conversation_id\":\"xyz\",\"user_id\":\"7\"}'']))"
proof -
  let ?env = "[''TELEGRAM_BOT_TOKEN'' \<mapsto> ''123:abc'']"
  let ?us = "[Some (command_message 42 ''start'' []), None, Some (text_message 42 ''hello''),
              Some (command_message 7 ''start'' ''xyz'')]"
  let ?hf = "example_handler\<lparr>convManager :=
               StartConversation (StartConversation NewManager 42 ''abc123'') 7 ''xyz''\<rparr>"
  let ?s = "\<lparr>UserID = [], ConversationID = ''abc123''\<rparr>"
  let ?stored = "\<lparr>UserID = ''someone'', ConversationID = ''xyz''\<rparr>"
  let ?hb = "example_handler\<lparr>convManager := UpdateSession NewManager 7 (Some ?stored)\<rparr>"
  let ?m = "text_message 7 ''hello''"
  from example_run obtain w' sent where
    run: "main example_library ?env ?us = Return (?hf, w', sent)"
    and w': "w' = [HttpPost ''http://localhost:8080/chat'' ''application/json''
                 ''{\"input\":\"/start\",\"user_id\":\"42\",\"title\":\"New Conversation\"}'',
               HttpPost ''http://localhost:8080/chat'' ''application/json''
                 ''{\"input\":\"hello\",\"conversation_id\":\"abc123\",\"user_id\":\"42\"}'']"
    by blast
  have got: "GetSession (convManager ?hf) 42 = Some ?s"
    by (simp add: GetSession_StartConversation)
  from sessions_hold_no_UserID [where L = example_library and env = ?env and updates = ?us]
    run got
  have anonymous: "UserID ?s = []"
    by blast
  from run w' got anonymous have first: "\<exists>h' w' sent s.
      main example_library ?env ?us = Return (h', w', sent)
      \<and> w' = [HttpPost ''http://localhost:8080/chat'' ''application/json''
                 ''{\"input\":\"/start\",\"user_id\":\"42\",\"title\":\"New Conversation\"}'',
               HttpPost ''http://localhost:8080/chat'' ''application/json''
                 ''{\"input\":\"hello\",\"conversation_id\":\"abc123\",\"user_id\":\"42\"}'']
      \<and> GetSession (convManager h') 42 = Some s
      \<and> ConversationID s = ''abc123''
      \<and> UserID s = []"
    by (intro exI [of _ ?hf] exI [of _ w'] exI [of _ sent] exI [of _ ?s]) simp
  have stored: "GetSession (UpdateSession NewManager 7 (Some ?stored)) 7 = Some ?stored"
    by (simp add: GetSession_UpdateSession)
  from sessions_hold_no_UserID [where L = example_library and h = ?hb and w = "[]" and m = ?m]
  obtain reply h' where
    "HandleMessage example_library ?hb [] ?m
       = Return (reply, h',
           [] @ [HttpPost (baseURL (apiClient ?hb) @ ''/chat'') ''application/json''
                   (encode example_library
                      \<lparr>Input = msg_Text ?m,
                       req_ConversationID =
                         (case GetSession (convManager ?hb) (From_ID ?m) of
                            None \<Rightarrow> [] | Some s \<Rightarrow> ConversationID s),
                       req_UserID = FormatInt (From_ID ?m), Title = []\<rparr>)])"
    by blast
  then have second: "\<exists>reply h'.
        HandleMessage example_library ?hb [] ?m
        = Return (reply, h',
            [HttpPost ''http://localhost:8080/chat'' ''application/json''
               ''{\"input\":\"hello\",\"conversation_id\":\"xyz\",\"user_id\":\"7\"}''])"
    by (simp add: example_handler_sel NewClient_def text_message_def GetSession_UpdateSession
        FormatInt_7 example_library_def plain_encode_def)
  from first stored second show ?thesis by blast
qed

end
